theory Spec2Isabelle
  imports Complex_Main "HOL-Library.Multiset"
begin

section \<open>Python values, exceptions and sequences\<close>

text \<open>
  The three source files are Python. Exceptions are values: a function that can raise
  returns \<open>exn + 'a\<close>, and a method that mutates its object before it raises returns an
  \<open>outcome\<close>, which keeps the state reached at the point of the raise.
  Arrays of floats are lists of reals: the arithmetic of the model is exact, where the
  program rounds to float32 or float64.
\<close>

datatype exn = AttributeError | ValueError | IndexError | TypeError | NameError
  | ZeroDivisionError | OverflowError | EmptyBufferError | InvalidPriorityError

datatype ('a, 's) outcome = Return 'a 's | Raise exn 's

definition bindO :: "('a, 's) outcome \<Rightarrow> ('a \<Rightarrow> 's \<Rightarrow> ('b, 's) outcome) \<Rightarrow> ('b, 's) outcome" where
  "bindO m f = (case m of Return a s \<Rightarrow> f a s | Raise e s \<Rightarrow> Raise e s)"

definition bindE :: "exn + 'a \<Rightarrow> ('a \<Rightarrow> exn + 'b) \<Rightarrow> exn + 'b" where
  "bindE m f = (case m of Inl e \<Rightarrow> Inl e | Inr a \<Rightarrow> f a)"

text \<open>\<open>xs[i]\<close> for an index that is not negative: IndexError out of range.\<close>

definition nth_err :: "'a list \<Rightarrow> nat \<Rightarrow> exn + 'a" where
  "nth_err xs i = (if i < length xs then Inr (xs ! i) else Inl IndexError)"

text \<open>\<open>xs[a:b]\<close> for bounds that are not negative: the slice is clamped, never an error.\<close>

definition pyslice :: "nat \<Rightarrow> nat \<Rightarrow> 'a list \<Rightarrow> 'a list" where
  "pyslice a b xs = take (b - a) (drop a xs)"

section \<open>The n-step accumulator (base.py)\<close>

text \<open>
  \<open>Base_Agent.nstep\<close>, lines 84 to 88:
  \<^verbatim>\<open>
    def nstep(self, r):
        discount_r = 0.0
        for r in r:
            discount_r += 0.99 * r
        return r
  \<close>
  The loop variable has the name of the argument. After the loop \<open>r\<close> is the last
  element of the slice, or still the slice itself when the slice is empty, and that is
  what is returned; \<open>discount_r\<close> is accumulated and dropped.
\<close>

datatype nstep_result = Elem real | Whole "real list"

fun nstep_loop :: "real \<Rightarrow> nstep_result \<Rightarrow> real list \<Rightarrow> real \<times> nstep_result" where
  "nstep_loop discount_r r [] = (discount_r, r)"
| "nstep_loop discount_r r (x # xs) = nstep_loop (discount_r + 0.99 * x) (Elem x) xs"

definition nstep :: "real list \<Rightarrow> nstep_result" where
  "nstep r = snd (nstep_loop 0 (Whole r) r)"

text \<open>
  The accumulation of \<open>Base_Agent.run\<close>, lines 160 to 165. \<open>len_trend\<close> is
  \<open>len(trend)\<close>, \<open>df\<close> the window of states, and \<open>q k\<close> reads \<open>q[k]\<close> (for an array
  \<open>qs\<close> it is \<open>nth_err qs\<close>; the name \<open>q\<close> can also be unbound, see \<open>run\<close> below):
  \<^verbatim>\<open>
    for t in range(0, len(trend) - 1):
        tau = t - self.n + 1
        if tau >= 0:
            r = self.nstep(rewards[tau + 1:tau + self.n])
            memory.append((df[tau], q[tau], r, df[tau + self.n]))
  \<close>
\<close>

type_synonym ('s, 'a) transition = "'s \<times> 'a \<times> nstep_result \<times> 's"

definition append_transition ::
  "nat \<Rightarrow> 's list \<Rightarrow> (nat \<Rightarrow> exn + 'a) \<Rightarrow> real list \<Rightarrow> ('s, 'a) transition list \<Rightarrow> nat
    \<Rightarrow> exn + ('s, 'a) transition list" where
  "append_transition n df q rewards memory t =
     (if n \<le> t + 1 then
        (let tau = t + 1 - n;
             r = nstep (pyslice (tau + 1) (tau + n) rewards)
         in bindE (nth_err df tau) (\<lambda>s.
            bindE (q tau) (\<lambda>a.
            bindE (nth_err df (tau + n)) (\<lambda>s'.
            Inr (memory @ [(s, a, r, s')])))))
      else Inr memory)"

fun accumulate_from ::
  "nat \<Rightarrow> 's list \<Rightarrow> (nat \<Rightarrow> exn + 'a) \<Rightarrow> real list \<Rightarrow> ('s, 'a) transition list \<Rightarrow> nat list
    \<Rightarrow> exn + ('s, 'a) transition list" where
  "accumulate_from n df q rewards memory [] = Inr memory"
| "accumulate_from n df q rewards memory (t # ts) =
     bindE (append_transition n df q rewards memory t)
       (\<lambda>memory'. accumulate_from n df q rewards memory' ts)"

definition accumulate ::
  "nat \<Rightarrow> nat \<Rightarrow> 's list \<Rightarrow> (nat \<Rightarrow> exn + 'a) \<Rightarrow> real list \<Rightarrow> exn + ('s, 'a) transition list" where
  "accumulate n len_trend df q rewards =
     accumulate_from n df q rewards [] [0 ..< len_trend - 1]"

section \<open>The value-based agent (dqn.py): loss and temporal-difference error\<close>

text \<open>
  A network is an external collaborator: \<open>qnet w s\<close> is the row of action values the
  network with weights \<open>w\<close> gives for the state \<open>s\<close>, so that \<open>predict_on_batch\<close> is a
  \<open>map\<close>. The fields below are those of \<open>Base_Agent.__init__\<close> and of \<open>Agent.build\<close>
  that the methods of the model read or write; \<open>opt_lr\<close> is the learning rate held by
  the optimizer, \<open>random_ctr\<close> is \<open>self.random\<close>, \<open>saved_i\<close> is \<open>self.i\<close>.
\<close>

record 'w base_agent =
  agent_types :: string
  model :: 'w
  target_model :: 'w
  gamma :: real
  lr :: real
  opt_lr :: real
  random_ctr :: nat
  restore :: bool
  saved_i :: nat

text \<open>
  \<open>Base_Agent.__init__\<close> sets \<open>self.gamma = 0.4\<close> (line 41) and \<open>self.random = 0\<close>,
  then calls \<open>build\<close>, which for the value-based agent gives the target network the
  weights of the online one (or loads both from the same file when restoring). \<open>w0\<close>
  stands for the weights \<open>build_model()\<close> or the file gives, \<open>i0\<close> for the stored
  iteration number. Neither \<open>Agent.build\<close> of dqn.py nor \<open>Base_Agent\<close> assigns
  \<open>self.types\<close>, which \<open>__init__\<close> (line 47) and \<open>run\<close> read; \<open>types0\<close> stands for the
  value the attribute has been given when the methods run.
\<close>

definition dqn_init :: "string \<Rightarrow> 'w \<Rightarrow> real \<Rightarrow> bool \<Rightarrow> nat \<Rightarrow> 'w base_agent" where
  "dqn_init types0 w0 lr0 restore0 i0 =
     \<lparr>agent_types = types0, model = w0, target_model = w0, gamma = 0.4, lr = lr0,
      opt_lr = lr0, random_ctr = 0, restore = restore0, saved_i = i0\<rparr>"

text \<open>\<open>np.argmax\<close>: the first index of the greatest element; ValueError on an empty row.\<close>

fun argmax_from :: "nat \<Rightarrow> real \<Rightarrow> nat \<Rightarrow> real list \<Rightarrow> nat" where
  "argmax_from best bv i [] = best"
| "argmax_from best bv i (x # xs) =
     (if bv < x then argmax_from i x (Suc i) xs else argmax_from best bv (Suc i) xs)"

definition argmax :: "real list \<Rightarrow> exn + nat" where
  "argmax xs = (case xs of [] \<Rightarrow> Inl ValueError | x # r \<Rightarrow> Inr (argmax_from 0 x 1 r))"

text \<open>
  \<open>Agent.loss\<close>, lines 42 to 53. One round of the loop:
  \<^verbatim>\<open>
    q_backup[i, actions[i]] = rewards[i] + self.gamma * target_q[i, np.argmax(arg_q[i])]
  \<close>
\<close>

definition backup_row ::
  "real \<Rightarrow> real list list \<Rightarrow> real list list \<Rightarrow> real list \<Rightarrow> nat list \<Rightarrow> real list list
     \<Rightarrow> nat \<Rightarrow> exn + real list list" where
  "backup_row g target_q arg_q rewards actions q_backup i =
     bindE (nth_err rewards i) (\<lambda>r.
     bindE (nth_err arg_q i) (\<lambda>arow.
     bindE (argmax arow) (\<lambda>j.
     bindE (nth_err target_q i) (\<lambda>trow.
     bindE (nth_err trow j) (\<lambda>tq.
     bindE (nth_err actions i) (\<lambda>a.
     bindE (nth_err q_backup i) (\<lambda>qrow.
       if a < length qrow then Inr (q_backup[i := qrow[a := r + g * tq]])
       else Inl IndexError)))))))"

fun loss_loop ::
  "real \<Rightarrow> real list list \<Rightarrow> real list list \<Rightarrow> real list \<Rightarrow> nat list \<Rightarrow> real list list
     \<Rightarrow> nat list \<Rightarrow> exn + real list list" where
  "loss_loop g target_q arg_q rewards actions q_backup [] = Inr q_backup"
| "loss_loop g target_q arg_q rewards actions q_backup (i # is) =
     bindE (backup_row g target_q arg_q rewards actions q_backup i)
       (\<lambda>q_backup'. loss_loop g target_q arg_q rewards actions q_backup' is)"

definition loss ::
  "('w \<Rightarrow> 's \<Rightarrow> real list) \<Rightarrow> 'w base_agent \<Rightarrow> 's list \<Rightarrow> 's list \<Rightarrow> real list \<Rightarrow> nat list
     \<Rightarrow> exn + (real list list \<times> real list list)" where
  "loss qnet ag states new_states rewards actions =
     (let q = map (qnet (model ag)) states;
          target_q = map (qnet (target_model ag)) new_states;
          arg_q = map (qnet (model ag)) new_states
      in bindE (loss_loop (gamma ag) target_q arg_q rewards actions q [0 ..< length rewards])
           (\<lambda>q_backup. Inr (q_backup, q)))"

text \<open>\<open>tf.reduce_sum(np.abs(q_backup - q), -1)\<close>: one absolute error per transition.\<close>

definition td_error :: "real list list \<Rightarrow> real list list \<Rightarrow> real list" where
  "td_error q_backup q = map (\<lambda>(b, r). sum_list (map (\<lambda>(u, v). \<bar>u - v\<bar>) (zip b r))) (zip q_backup q)"

section \<open>Arrays of actions and \<open>pg_action\<close> (base.py)\<close>

text \<open>
  The policy of the value-based agent returns a one-dimensional array of action indices,
  the policy of the actor-critic agent an array of rows of two reals. A Python tuple of
  arrays is a list of \<open>pyval\<close>; an element read from an array is an \<open>act\<close>.
\<close>

datatype pyval = IntArr "nat list" | RealArr "real list" | Arr2 "(real \<times> real) list"

datatype act = IntAct nat | RealAct real | RowAct "real \<times> real"

definition pyval_items :: "pyval \<Rightarrow> act list" where
  "pyval_items v =
     (case v of IntArr ns \<Rightarrow> map IntAct ns | RealArr rs \<Rightarrow> map RealAct rs
      | Arr2 rows \<Rightarrow> map RowAct rows)"

text \<open>
  \<open>Base_Agent.pg_action\<close>, lines 101 to 105. \<open>action[:, 0]\<close> needs two dimensions: on a
  one-dimensional array it raises IndexError.
  \<^verbatim>\<open>
    def pg_action(self, action):
        q = action[:]
        action, leverage = action[:, 0], [i * 2.5 if i > 0 else i * .5 for i in action[:, 1]]
        action = [0 if i > 0.5 else 1 for i in action]
        return action, leverage, q
  \<close>
\<close>

definition pg_action :: "pyval \<Rightarrow> exn + pyval list" where
  "pg_action action =
     (case action of
        Arr2 rows \<Rightarrow>
          (let q = Arr2 rows;
               action0 = map fst rows;
               leverage = map (\<lambda>i. if i > 0 then i * 2.5 else i * 0.5) (map snd rows);
               action1 = map (\<lambda>i. if i > 0.5 then 0 else 1) action0
           in Inr [IntArr action1, RealArr leverage, q])
      | _ \<Rightarrow> Inl IndexError)"

text \<open>
  \<open>a, b, ... = t\<close> with \<open>k\<close> names on the left: ValueError unless the tuple has exactly
  \<open>k\<close> components.
\<close>

definition unpack :: "nat \<Rightarrow> 'a list \<Rightarrow> exn + 'a list" where
  "unpack k vs = (if length vs = k then Inr vs else Inl ValueError)"

section \<open>The replay buffer\<close>

text \<open>
  Modelled from the spec: the class \<open>Memory\<close> of the module \<open>memory\<close>, which the three
  source files import and which is not among them. Section 4.1 of the specification
  gives its contract: a ring of fixed capacity whose slots hold a priority and a
  transition; \<open>store\<close> writes the next slot with the priority clipped to a configured
  maximum; \<open>sample\<close> cuts the total priority into equal segments, draws one value in
  each and returns the slot whose priority interval holds it, failing when fewer
  transitions than the batch size are stored; \<open>batch_update\<close> overwrites the priorities
  of the given slots and rejects a negative priority. The sum tree is represented by its
  leaves, in slot order; a slot's index stands for its tree index. \<open>u j\<close> is the uniform
  draw in \<open>[0, 1)\<close> for segment \<open>j\<close>.
\<close>

record ('s, 'a) Memory =
  capacity :: nat
  max_priority :: real
  leaves :: "(real \<times> ('s, 'a) transition) list"
  write_ptr :: nat

definition Memory_new :: "real \<Rightarrow> nat \<Rightarrow> ('s, 'a) Memory" where
  "Memory_new pmax cap = \<lparr>capacity = cap, max_priority = pmax, leaves = [], write_ptr = 0\<rparr>"

definition store :: "('s, 'a) transition \<Rightarrow> real \<Rightarrow> ('s, 'a) Memory \<Rightarrow> exn + ('s, 'a) Memory" where
  "store tr p m =
     (if p < 0 then Inl InvalidPriorityError
      else if capacity m = 0 then Inl IndexError
      else
        (let p' = min p (max_priority m);
             leaves' = (if length (leaves m) < capacity m then leaves m @ [(p', tr)]
                        else (leaves m)[write_ptr m := (p', tr)])
         in Inr (m\<lparr>leaves := leaves', write_ptr := (write_ptr m + 1) mod capacity m\<rparr>)))"

fun find_leaf :: "real list \<Rightarrow> real \<Rightarrow> nat" where
  "find_leaf [] v = 0"
| "find_leaf [p] v = 0"
| "find_leaf (p # ps) v = (if v < p then 0 else Suc (find_leaf ps (v - p)))"

definition sample_memory ::
  "nat \<Rightarrow> (nat \<Rightarrow> real) \<Rightarrow> ('s, 'a) Memory \<Rightarrow> exn + (nat list \<times> ('s, 'a) transition list)" where
  "sample_memory batch_size u m =
     (if length (leaves m) < batch_size \<or> leaves m = [] then Inl EmptyBufferError
      else
        (let priorities = map fst (leaves m);
             segment = sum_list priorities / real batch_size;
             tree_idx = map (\<lambda>j. find_leaf priorities (segment * (real j + u j))) [0 ..< batch_size]
         in Inr (tree_idx, map (\<lambda>k. snd (leaves m ! k)) tree_idx)))"

fun batch_update :: "nat list \<Rightarrow> real list \<Rightarrow> ('s, 'a) Memory \<Rightarrow> exn + ('s, 'a) Memory" where
  "batch_update (k # ks) (p # ps) m =
     (if p < 0 then Inl InvalidPriorityError
      else if length (leaves m) \<le> k then Inl IndexError
      else batch_update ks ps (m\<lparr>leaves := (leaves m)[k := (p, snd (leaves m ! k))]\<rparr>))"
| "batch_update ks ps m = Inr m"

section \<open>The value-based agent (dqn.py): sample, train, learning rate, policy\<close>

text \<open>
  The arrays \<open>sample\<close> and \<open>train\<close> build from a list of transitions. Every return is
  either a float or, when the slice given to \<open>nstep\<close> was empty, an empty array: a
  column of floats, an array of shape \<open>(N, 0)\<close> that \<open>reshape((-1, 1))\<close> empties, or a
  ragged list that \<open>np.array(..., np.float32)\<close> rejects.
\<close>

definition rewards_column :: "nstep_result list \<Rightarrow> exn + real list" where
  "rewards_column rs =
     (if list_all (\<lambda>r. case r of Elem v \<Rightarrow> True | Whole vs \<Rightarrow> False) rs
      then Inr (map (\<lambda>r. case r of Elem v \<Rightarrow> v | Whole vs \<Rightarrow> 0) rs)
      else if list_all (\<lambda>r. r = Whole []) rs then Inr []
      else Inl ValueError)"

text \<open>An array of actions used as column indices: integers only.\<close>

fun int_actions :: "act list \<Rightarrow> exn + nat list" where
  "int_actions [] = Inr []"
| "int_actions (IntAct a # as) = bindE (int_actions as) (\<lambda>ns. Inr (a # ns))"
| "int_actions (_ # as) = Inl IndexError"

text \<open>
  The external collaborators of the value-based agent: the network, the gradient of the
  loss with respect to the trainable variables (one list of reals per variable), and the
  optimizer's step at a learning rate.
\<close>

record ('w, 's) dqn_net =
  predict :: "'w \<Rightarrow> 's \<Rightarrow> real list"
  gradient :: "'w \<Rightarrow> 's list \<Rightarrow> real list list \<Rightarrow> real list list"
  apply_gradients :: "real \<Rightarrow> real list list \<Rightarrow> 'w \<Rightarrow> 'w"

definition clip_by_value :: "real \<Rightarrow> real \<Rightarrow> real \<Rightarrow> real" where
  "clip_by_value v lo hi = min (max v lo) hi"

text \<open>\<open>Agent.sample\<close>, lines 55 to 63.\<close>

definition sample_dqn ::
  "('w, 's) dqn_net \<Rightarrow> 'w base_agent \<Rightarrow> ('s, act) transition list \<Rightarrow> exn + real list" where
  "sample_dqn net ag memory =
     (let states = map (\<lambda>(s, a, r, s'). s) memory;
          new_states = map (\<lambda>(s, a, r, s'). s') memory
      in bindE (int_actions (map (\<lambda>(s, a, r, s'). a) memory)) (\<lambda>actions.
         bindE (rewards_column (map (\<lambda>(s, a, r, s'). r) memory)) (\<lambda>rewards.
         bindE (loss (predict net) ag states new_states rewards actions) (\<lambda>(q_backup, q).
         Inr (td_error q_backup q)))))"

text \<open>
  \<open>Agent.train\<close>, lines 65 to 83: sample 128, loss, \<open>batch_update\<close> with the absolute
  errors plus 1e-10, gradients clipped to \<open>[-10, 10]\<close> and applied.
\<close>

definition train_dqn ::
  "('w, 's) dqn_net \<Rightarrow> (nat \<Rightarrow> real) \<Rightarrow> 'w base_agent \<Rightarrow> ('s, act) Memory
     \<Rightarrow> (unit, 'w base_agent \<times> ('s, act) Memory) outcome" where
  "train_dqn net u ag m =
     (case sample_memory 128 u m of
        Inl e \<Rightarrow> Raise e (ag, m)
      | Inr (tree_idx, replay) \<Rightarrow>
          (let states = map (\<lambda>(s, a, r, s'). s) replay;
               new_states = map (\<lambda>(s, a, r, s'). s') replay
           in case bindE (int_actions (map (\<lambda>(s, a, r, s'). a) replay)) (\<lambda>actions.
                   bindE (rewards_column (map (\<lambda>(s, a, r, s'). r) replay)) (\<lambda>rewards.
                   loss (predict net) ag states new_states rewards actions)) of
                Inl e \<Rightarrow> Raise e (ag, m)
              | Inr (q_backup, q) \<Rightarrow>
                  (let ae = map (\<lambda>d. d + 1 / 10 ^ 10) (td_error q_backup q)
                   in case batch_update tree_idx ae m of
                        Inl e \<Rightarrow> Raise e (ag, m)
                      | Inr m' \<Rightarrow>
                          (let gradients = gradient net (model ag) states q_backup;
                               clipped = map (map (\<lambda>grad. clip_by_value grad (- 10) 10)) gradients
                           in Return ()
                                (ag\<lparr>model := apply_gradients net (opt_lr ag) clipped (model ag)\<rparr>,
                                 m')))))"

text \<open>\<open>Agent.lr_decay\<close> and \<open>Agent.save\<close> of dqn.py (the files written are not modelled).\<close>

definition lr_decay_dqn :: "nat \<Rightarrow> 'w base_agent \<Rightarrow> 'w base_agent" where
  "lr_decay_dqn i ag = ag\<lparr>opt_lr := lr ag * (1 / (1 + 1 / 10 ^ 6 * real i))\<rparr>"

definition save_agent :: "nat \<Rightarrow> 'w base_agent \<Rightarrow> 'w base_agent" where
  "save_agent i ag = ag\<lparr>restore := True, saved_i := i\<rparr>"

text \<open>
  The random draws of one iteration of the loop. \<open>o_rand j\<close>, \<open>o_randint3 j\<close>,
  \<open>o_randn j\<close> and \<open>o_box j\<close> are the draws of \<open>np.random.rand()\<close>,
  \<open>np.random.randint(3)\<close>, \<open>np.random.randn\<close> and \<open>aciton_space.sample()\<close> for row \<open>j\<close>
  of the policy; \<open>o_h_eval\<close> and \<open>o_h_train\<close> the two draws of the window start;
  \<open>o_order\<close> the positions \<open>random.sample\<close> picks, in order; \<open>o_segment\<close> the uniform
  draws of \<open>Memory.sample\<close>; \<open>o_parents\<close> the positions \<open>np.random.choice\<close> picks.
\<close>

record draws =
  o_h_eval :: nat
  o_h_train :: nat
  o_rand :: "nat \<Rightarrow> real"
  o_randint3 :: "nat \<Rightarrow> nat"
  o_randn :: "nat \<Rightarrow> real \<times> real"
  o_box :: "nat \<Rightarrow> real \<times> real"
  o_order :: "nat list"
  o_segment :: "nat \<Rightarrow> real"
  o_parents :: "nat list"

fun map_err :: "('a \<Rightarrow> exn + 'b) \<Rightarrow> 'a list \<Rightarrow> exn + 'b list" where
  "map_err f [] = Inr []"
| "map_err f (v # vs) = bindE (f v) (\<lambda>b. bindE (map_err f vs) (\<lambda>bs. Inr (b # bs)))"

text \<open>
  \<open>Agent.policy\<close> of dqn.py, lines 89 to 97:
  \<^verbatim>\<open>
    q = self.model.predict_on_batch(state).numpy()
    if (i + 1) % 5 != 0:
        action = np.array([np.argmax(i) if 0.1 < np.random.rand() else np.random.randint(3) for i in q])
    else:
        action = np.argmax(q, -1)
    return action
  \<close>
\<close>

definition policy_dqn ::
  "('w, 's) dqn_net \<Rightarrow> draws \<Rightarrow> 's list \<Rightarrow> nat \<Rightarrow> 'w base_agent \<Rightarrow> (pyval, 'w base_agent) outcome" where
  "policy_dqn net orc state i ag =
     (let q = map (predict net (model ag)) state
      in if (i + 1) mod 5 \<noteq> 0 then
           (case map_err (\<lambda>(j, row). if 0.1 < o_rand orc j then argmax row
                                      else Inr (o_randint3 orc j)) (enumerate 0 q) of
              Inl e \<Rightarrow> Raise e ag
            | Inr action \<Rightarrow> Return (IntArr action) ag)
         else
           (case map_err argmax q of
              Inl e \<Rightarrow> Raise e ag
            | Inr action \<Rightarrow> Return (IntArr action) ag))"

section \<open>Population-based policy search (ne1.py)\<close>

text \<open>
  The weights of an actor network are a list of matrices. \<open>softmax\<close>, lines 10 to 13:
  \<open>np.max\<close> of an empty array raises ValueError.
\<close>

type_synonym weights = "real list list list"

definition softmax :: "real list \<Rightarrow> exn + real list" where
  "softmax v =
     (if v = [] then Inl ValueError
      else (let e_x = map (\<lambda>a. exp (a - Max (set v))) v
            in Inr (map (\<lambda>e. e / sum_list e_x) e_x)))"

text \<open>
  Class \<open>Actor\<close>, lines 52 to 55: an instance has the attributes \<open>w\<close> and \<open>fitness\<close> and
  no other, so reading any other attribute of it raises AttributeError.
\<close>

record individual =
  ind_w :: weights
  fitness :: real

definition Actor :: "weights \<Rightarrow> individual" where
  "Actor w0 = \<lparr>ind_w = w0, fitness = 0\<rparr>"

datatype attr = WAttr weights | FitnessAttr real

definition Actor_getattr :: "string \<Rightarrow> individual \<Rightarrow> exn + attr" where
  "Actor_getattr name a =
     (if name = ''w'' then Inr (WAttr (ind_w a))
      else if name = ''fitness'' then Inr (FitnessAttr (fitness a))
      else Inl AttributeError)"

record neuro_evolution =
  population_size :: nat
  mutation_rate :: real
  n_winners :: nat
  n_parents :: nat
  population :: "individual list"
  fittest_individual :: "individual option"

text \<open>
  \<open>NeuroEvolution.__init__\<close> and \<open>initialize\<close>, lines 59 to 75. \<open>init_w k\<close> stands for
  the weights member \<open>k\<close> starts with (those of a new actor network, or those of the
  file when restoring). \<open>int(self.population_size * .4)\<close> is the integer part of four
  tenths of the size. \<open>fittest_individual\<close> is \<open>None\<close> until \<open>evolve\<close> assigns it.
\<close>

definition NeuroEvolution_init :: "nat \<Rightarrow> real \<Rightarrow> (nat \<Rightarrow> weights) \<Rightarrow> neuro_evolution" where
  "NeuroEvolution_init size0 rate0 init_w =
     \<lparr>population_size = size0, mutation_rate = rate0,
      n_winners = (size0 * 4) div 10,
      n_parents = size0 - (size0 * 4) div 10,
      population = map (\<lambda>k. Actor (init_w k)) [0 ..< size0],
      fittest_individual = None\<rparr>"

text \<open>
  \<open>mutate\<close>, lines 77 to 80, and \<open>crossover\<close>, lines 86 to 95. Both start a loop over
  \<open>range(individual.shape[0])\<close>, respectively \<open>range(parent1.shape[0])\<close>, on an instance
  of \<open>Actor\<close>: the attribute is read before the first round. No attribute of an \<open>Actor\<close>
  is a shape, so what follows the read has no value to loop over; the model gives it the
  TypeError that subscripting such a value raises.
  \<^verbatim>\<open>
    def mutate(self, individual, scale=1.0):
        for i in range(individual.shape[0]):
            ...
    def crossover(self, parent1, parent2):
        child1 = self.inherit_weights(parent1, Actor(np.array(actor().get_weights())))
        child2 = self.inherit_weights(parent2, Actor(np.array(actor().get_weights())))
        for i in range(parent1.shape[0]):
            ...
        return child1, child2
  \<close>
\<close>

definition inherit_weights :: "individual \<Rightarrow> individual \<Rightarrow> individual" where
  "inherit_weights parent child = child\<lparr>ind_w := ind_w parent\<rparr>"

definition mutate :: "individual \<Rightarrow> exn + unit" where
  "mutate ind = bindE (Actor_getattr ''shape'' ind) (\<lambda>shape. Inl TypeError)"

definition crossover ::
  "weights \<Rightarrow> individual \<Rightarrow> individual \<Rightarrow> exn + (individual \<times> individual)" where
  "crossover fresh parent1 parent2 =
     (let child1 = inherit_weights parent1 (Actor fresh);
          child2 = inherit_weights parent2 (Actor fresh)
      in bindE (Actor_getattr ''shape'' parent1) (\<lambda>shape. Inl TypeError))"

text \<open>
  \<open>np.argsort\<close>: the positions in ascending order of the keys. Equal keys come in the
  order of numpy's sorting routine; the model keeps them in their original order.
\<close>

definition argsort :: "real list \<Rightarrow> nat list" where
  "argsort v = sort_key (\<lambda>k. v ! k) [0 ..< length v]"

text \<open>
  Line 103, the sampling weights:
  \<^verbatim>\<open>
    probs = softmax(np.abs(fitnesses) / np.sum(np.abs(fitnesses)) * (np.abs(fitnesses) / fitnesses))
  \<close>
  A fitness of zero makes \<open>np.abs(f) / f\<close> the quotient 0/0, which numpy evaluates to
  NaN with a warning; \<open>np.max\<close> then is NaN and so is every weight. \<open>None\<close> stands for
  that array.
\<close>

definition selection_probs :: "real list \<Rightarrow> exn + real list option" where
  "selection_probs fitnesses =
     (if list_ex (\<lambda>f. f = 0) fitnesses \<and> fitnesses \<noteq> [] then Inr None
      else bindE (softmax (map (\<lambda>f. \<bar>f\<bar> / sum_list (map abs fitnesses) * (\<bar>f\<bar> / f)) fitnesses))
             (\<lambda>p. Inr (Some p)))"

text \<open>
  The contract of \<open>np.random.choice(a, size, replace, p)\<close> for an array of \<open>n\<close> elements,
  from numpy's documentation: the outcomes are the lists of \<open>amount\<close> positions of
  non-zero weight, pairwise distinct unless \<open>replace\<close> holds.
\<close>

definition choice_outcome :: "bool \<Rightarrow> nat \<Rightarrow> nat \<Rightarrow> real list \<Rightarrow> nat list \<Rightarrow> bool" where
  "choice_outcome replace n amount p picks =
     (length picks = amount \<and> list_all (\<lambda>k. k < n \<and> 0 < p ! k) picks
      \<and> (replace \<or> distinct picks))"

text \<open>
  A call of \<open>np.random.choice\<close> is the record of its four arguments; \<open>ch_p = None\<close>
  stands for an array of weights that holds NaN. \<open>call_outcome\<close> are the draws the
  contract above allows for a call. The call raises ValueError when the weights hold
  NaN, and when \<open>replace\<close> is false and the sample is larger than the array; otherwise
  it returns the elements at the positions drawn.
\<close>

record 'a choice_call =
  ch_items :: "'a list"
  ch_count :: nat
  ch_replace :: bool
  ch_p :: "real list option"

definition call_outcome :: "'a choice_call \<Rightarrow> nat list \<Rightarrow> bool" where
  "call_outcome c picks =
     (case ch_p c of
        None \<Rightarrow> False
      | Some p \<Rightarrow> choice_outcome (ch_replace c) (length (ch_items c)) (ch_count c) p picks)"

definition np_random_choice :: "'a choice_call \<Rightarrow> nat list \<Rightarrow> exn + 'a list" where
  "np_random_choice c picks =
     (case ch_p c of
        None \<Rightarrow> Inl ValueError
      | Some p \<Rightarrow>
          if \<not> ch_replace c \<and> length (ch_items c) < ch_count c then Inl ValueError
          else Inr (map (\<lambda>k. ch_items c ! k) picks))"

text \<open>
  \<open>evolve\<close>, lines 97 to 109. \<open>picks\<close> are the positions \<open>np.random.choice\<close> returns and
  \<open>fresh\<close> the weights of a new actor network.
  \<^verbatim>\<open>
    fitnesses = np.array([i.fitness for i in self.population]).reshape((-1,))
    self.population = self.population[np.argsort(fitnesses)[::-1]]
    self.fittest_individual = self.population[0]

    next_population = self.population[:self.n_winners]
    probs = softmax(...)
    parents = np.random.choice(self.population, self.n_parents, False, probs)

    for i in range(0, len(parents), 2):
        child1, child2 = self.crossover(parents[i], parents[i + 1])
        next_population += [self.mutate(child1), self.mutate(child2)]
    self.population = next_population
  \<close>
  \<open>select_parents\<close> is the part before the loop, lines 98 to 104. It returns the locals
  the loop reads, \<open>next_population\<close> and \<open>parents\<close>, together with the call of
  \<open>np.random.choice\<close> it made. \<open>fitnesses\<close> is read before the population is sorted and
  is not sorted with it: \<open>probs\<close> is in the order the population had before line 99,
  and the array it is passed with is the sorted one.
  Every path through the body of the loop raises: \<open>crossover\<close> and \<open>mutate\<close> as above,
  and \<open>+=\<close> of a list of two \<open>None\<close> to an array of objects (which adds element by
  element, TypeError, or fails to broadcast, ValueError).
\<close>

record selection =
  sel_next_population :: "individual list"
  sel_call :: "individual choice_call"
  sel_parents :: "individual list"

definition select_parents ::
  "nat list \<Rightarrow> neuro_evolution \<Rightarrow> (selection, neuro_evolution) outcome" where
  "select_parents picks ne =
     (let fitnesses = map fitness (population ne);
          sorted_population = map (\<lambda>k. population ne ! k) (rev (argsort fitnesses));
          ne1 = ne\<lparr>population := sorted_population\<rparr>
      in case population ne1 of
           [] \<Rightarrow> Raise IndexError ne1
         | first # others \<Rightarrow>
             (let ne2 = ne1\<lparr>fittest_individual := Some first\<rparr>;
                  next_population = take (n_winners ne2) (population ne2)
              in case selection_probs fitnesses of
                   Inl e \<Rightarrow> Raise e ne2
                 | Inr probs \<Rightarrow>
                     (let call = \<lparr>ch_items = population ne2, ch_count = n_parents ne2,
                                  ch_replace = False, ch_p = probs\<rparr>
                      in case np_random_choice call picks of
                           Inl e \<Rightarrow> Raise e ne2
                         | Inr parents \<Rightarrow>
                             Return \<lparr>sel_next_population = next_population, sel_call = call,
                                     sel_parents = parents\<rparr> ne2)))"

text \<open>
  The draws \<open>np.random.choice\<close> can return for the call \<open>evolve\<close> makes of it.
\<close>

definition possible_picks :: "neuro_evolution \<Rightarrow> nat list \<Rightarrow> bool" where
  "possible_picks ne picks =
     (case select_parents picks ne of
        Return sel ne2 \<Rightarrow> call_outcome (sel_call sel) picks
      | Raise e ne2 \<Rightarrow> False)"

definition evolve_round ::
  "weights \<Rightarrow> individual list \<Rightarrow> individual list \<Rightarrow> nat \<Rightarrow> exn + individual list" where
  "evolve_round fresh parents next_population i =
     bindE (nth_err parents i) (\<lambda>parent1.
     bindE (nth_err parents (i + 1)) (\<lambda>parent2.
     bindE (crossover fresh parent1 parent2) (\<lambda>(child1, child2).
     bindE (mutate child1) (\<lambda>m1.
     bindE (mutate child2) (\<lambda>m2.
       if length next_population = 1 \<or> length next_population = 2 then Inl TypeError
       else Inl ValueError)))))"

fun evolve_loop ::
  "weights \<Rightarrow> individual list \<Rightarrow> individual list \<Rightarrow> nat list \<Rightarrow> exn + individual list" where
  "evolve_loop fresh parents next_population [] = Inr next_population"
| "evolve_loop fresh parents next_population (i # is) =
     bindE (evolve_round fresh parents next_population i)
       (\<lambda>next_population'. evolve_loop fresh parents next_population' is)"

text \<open>\<open>range(0, n, 2)\<close>.\<close>

definition range_by_two :: "nat \<Rightarrow> nat list" where
  "range_by_two n = map (\<lambda>j. 2 * j) [0 ..< (n + 1) div 2]"

definition evolve :: "weights \<Rightarrow> nat list \<Rightarrow> neuro_evolution \<Rightarrow> (unit, neuro_evolution) outcome" where
  "evolve fresh picks ne =
     (case select_parents picks ne of
        Raise e ne2 \<Rightarrow> Raise e ne2
      | Return sel ne2 \<Rightarrow>
          (case evolve_loop fresh (sel_parents sel) (sel_next_population sel)
                  (range_by_two (length (sel_parents sel))) of
             Inl e \<Rightarrow> Raise e ne2
           | Inr next_population' \<Rightarrow> Return () (ne2\<lparr>population := next_population'\<rparr>)))"

section \<open>The actor-critic agent (ne1.py)\<close>

text \<open>
  The model of the actor-critic agent has an actor and a critic; the agent adds
  \<open>epoch\<close> and the population search \<open>ne\<close> to the fields of the base class. The
  external collaborators: the actor network (a row of two reals per state), the critic
  network (the triple \<open>q1, q2, v\<close> per state and action), the gradient of the critic's
  loss and the step of the optimizer \<open>v_opt\<close>.
\<close>

record pg_model =
  actor :: weights
  critic :: weights

record pg_agent = "pg_model base_agent" +
  epoch :: nat
  ne :: neuro_evolution

record 's pg_net =
  actor_net :: "weights \<Rightarrow> 's \<Rightarrow> real \<times> real"
  critic_net :: "weights \<Rightarrow> 's \<Rightarrow> real \<times> real \<Rightarrow> real \<times> real \<times> real"
  critic_gradient :: "weights \<Rightarrow> 's list \<Rightarrow> (real \<times> real) list \<Rightarrow> real list \<Rightarrow> real \<Rightarrow> weights"
  v_opt_apply :: "real \<Rightarrow> weights \<Rightarrow> weights \<Rightarrow> weights"

text \<open>
  \<open>Agent.build\<close>, lines 113 to 131, after \<open>Base_Agent.__init__\<close>: the discount is reset
  to 0, \<open>epoch\<close> is 0, the population has the default size 100 and mutation rate 0.1, the
  target model has the weights of the model.
\<close>

definition pg_init :: "pg_model \<Rightarrow> real \<Rightarrow> bool \<Rightarrow> nat \<Rightarrow> (nat \<Rightarrow> weights) \<Rightarrow> pg_agent" where
  "pg_init w0 lr0 restore0 i0 init_w =
     \<lparr>agent_types = ''PG'', model = w0, target_model = w0, gamma = 0, lr = lr0,
      opt_lr = lr0, random_ctr = 0, restore = restore0, saved_i = i0,
      epoch = 0, ne = NeuroEvolution_init 100 0.1 init_w\<rparr>"

text \<open>\<open>Base_Agent.huber_loss\<close>, lines 63 to 67, on one pair of values.\<close>

definition huber_loss :: "real \<Rightarrow> real \<Rightarrow> real \<Rightarrow> real" where
  "huber_loss q_backup q delta =
     (let error = \<bar>q_backup - q\<bar>
      in if error < delta then error ^ 2 * 0.5 else delta * error - 0.5 * delta ^ 2)"

text \<open>
  An operation on two columns, of shapes \<open>(a, 1)\<close> and \<open>(b, 1)\<close>: element by element
  when \<open>a = b\<close>, a column of one row is broadcast, any other pair of shapes is a
  ValueError.
\<close>

definition columns_op :: "(real \<Rightarrow> real \<Rightarrow> real) \<Rightarrow> real list \<Rightarrow> real list \<Rightarrow> exn + real list" where
  "columns_op f u v =
     (if length u = length v then Inr (map (\<lambda>(a, b). f a b) (zip u v))
      else if length u = 1 then Inr (map (\<lambda>b. f (hd u) b) v)
      else if length v = 1 then Inr (map (\<lambda>a. f a (hd v)) u)
      else Inl ValueError)"

text \<open>
  The actions of a list of transitions as rows of two reals, for
  \<open>np.array(...).reshape((-1, 2))\<close>; an array of other elements is given a ValueError.
\<close>

fun row_actions :: "act list \<Rightarrow> exn + (real \<times> real) list" where
  "row_actions [] = Inr []"
| "row_actions (RowAct r # as) = bindE (row_actions as) (\<lambda>rs. Inr (r # rs))"
| "row_actions (_ # as) = Inl ValueError"

definition mean :: "real list \<Rightarrow> real" where
  "mean v = sum_list v / real (length v)"

text \<open>\<open>Agent.sample\<close> of ne1.py, lines 133 to 145.\<close>

definition sample_pg ::
  "'s pg_net \<Rightarrow> pg_agent \<Rightarrow> ('s, act) transition list \<Rightarrow> exn + real list" where
  "sample_pg net ag memory =
     (let states = map (\<lambda>(s, a, r, s'). s) memory
      in bindE (row_actions (map (\<lambda>(s, a, r, s'). a) memory)) (\<lambda>actions.
         bindE (rewards_column (map (\<lambda>(s, a, r, s'). r) memory)) (\<lambda>rewards.
           (let outs = map (\<lambda>(s, a). critic_net net (critic (model ag)) s a) (zip states actions);
                q = map (\<lambda>(q1, q2, v). (q1 + q2) / 2) outs;
                target_v = map (\<lambda>(s, a). snd (snd (critic_net net (critic (target_model ag)) s a)))
                             (zip states actions)
            in bindE (columns_op (\<lambda>r v. r + gamma ag * v) rewards target_v) (\<lambda>q_backup.
               columns_op (\<lambda>b c. huber_loss b c 4) q_backup q)))))"

text \<open>
  The gated block of \<open>Agent.train\<close>, lines 173 to 185:
  \<^verbatim>\<open>
    if self.epoch >= 50 and self.epoch % 2 == 0:
        for i in range(self.ne.population_size):
            self.model.actor.set_weights(self.ne.population[i].w)
            policy = self.model.actor.predict_on_batch(states)
            q1_pi, q2_pi = self.model.critic.predict_on_batch([states, policy])
            self.ne.population[i].fitness = np.mean(q1_pi + q2_pi) / 2

        self.ne.evolve()
        self.model.actor.set_weights(self.ne.fittest_individual)

        self.target_model.set_weights(
            (1 - 0.005) * np.array(self.target_model.get_weights()) + 0.005 * np.array(
                self.model.get_weights()))
  \<close>
  The critic returns three arrays, which the loop unpacks into two names.
  \<open>set_weights\<close> of the actor is given the \<open>Actor\<close> object, not its weights: it takes
  the length of its argument, which an \<open>Actor\<close> does not have (TypeError).
\<close>

definition critic_outputs :: "'s pg_net \<Rightarrow> weights \<Rightarrow> 's list \<Rightarrow> (real \<times> real) list \<Rightarrow> real list list" where
  "critic_outputs net wc states actions =
     (let outs = map (\<lambda>(s, a). critic_net net wc s a) (zip states actions)
      in [map (\<lambda>(q1, q2, v). q1) outs, map (\<lambda>(q1, q2, v). q2) outs, map (\<lambda>(q1, q2, v). v) outs])"

fun evaluate_population :: "'s pg_net \<Rightarrow> 's list \<Rightarrow> nat list \<Rightarrow> pg_agent \<Rightarrow> (unit, pg_agent) outcome" where
  "evaluate_population net states [] ag = Return () ag"
| "evaluate_population net states (i # is) ag =
     (case nth_err (population (ne ag)) i of
        Inl e \<Rightarrow> Raise e ag
      | Inr ind \<Rightarrow>
          (let ag1 = ag\<lparr>model := (model ag)\<lparr>actor := ind_w ind\<rparr>\<rparr>;
               policy = map (actor_net net (actor (model ag1))) states
           in case unpack 2 (critic_outputs net (critic (model ag1)) states policy) of
                Inl e \<Rightarrow> Raise e ag1
              | Inr vals \<Rightarrow>
                  (let fit = mean (map (\<lambda>(a, b). a + b) (zip (vals ! 0) (vals ! 1))) / 2;
                       pop' = (population (ne ag1))[i := ind\<lparr>fitness := fit\<rparr>]
                   in evaluate_population net states is
                        (ag1\<lparr>ne := (ne ag1)\<lparr>population := pop'\<rparr>\<rparr>))))"

definition soft_update :: "weights \<Rightarrow> weights \<Rightarrow> weights" where
  "soft_update target online =
     map (\<lambda>(tm, om). map (\<lambda>(tr, orow). map (\<lambda>(t, v). (1 - 0.005) * t + 0.005 * v) (zip tr orow))
                       (zip tm om))
         (zip target online)"

definition set_actor_weights :: "individual option \<Rightarrow> pg_agent \<Rightarrow> (unit, pg_agent) outcome" where
  "set_actor_weights obj ag =
     (case obj of None \<Rightarrow> Raise AttributeError ag | Some an_actor \<Rightarrow> Raise TypeError ag)"

definition evolution_block ::
  "'s pg_net \<Rightarrow> weights \<Rightarrow> nat list \<Rightarrow> 's list \<Rightarrow> pg_agent \<Rightarrow> (unit, pg_agent) outcome" where
  "evolution_block net fresh picks states ag =
     (if epoch ag \<ge> 50 \<and> epoch ag mod 2 = 0 then
        bindO (evaluate_population net states [0 ..< population_size (ne ag)] ag) (\<lambda>_ ag1.
          (case evolve fresh picks (ne ag1) of
             Raise e ne' \<Rightarrow> Raise e (ag1\<lparr>ne := ne'\<rparr>)
           | Return _ ne' \<Rightarrow>
               bindO (set_actor_weights (fittest_individual ne') (ag1\<lparr>ne := ne'\<rparr>)) (\<lambda>_ ag2.
                 Return ()
                   (ag2\<lparr>target_model :=
                      \<lparr>actor = soft_update (actor (target_model ag2)) (actor (model ag2)),
                       critic = soft_update (critic (target_model ag2)) (critic (model ag2))\<rparr>\<rparr>))))
      else Return () ag)"

text \<open>
  \<open>Agent.train\<close> of ne1.py, lines 147 to 190: sample 128, the losses, the gated block,
  the critic's gradients clipped to \<open>[-10, 10]\<close> and applied by \<open>v_opt\<close>. The indices
  \<open>tree_idx\<close> are bound and not used again, and \<open>epoch\<close> is read and not assigned.
\<close>

definition train_pg ::
  "'s pg_net \<Rightarrow> weights \<Rightarrow> draws \<Rightarrow> pg_agent \<Rightarrow> ('s, act) Memory
     \<Rightarrow> (unit, pg_agent \<times> ('s, act) Memory) outcome" where
  "train_pg net fresh orc ag m =
     (case sample_memory 128 (o_segment orc) m of
        Inl e \<Rightarrow> Raise e (ag, m)
      | Inr (tree_idx, replay) \<Rightarrow>
          (let states = map (\<lambda>(s, a, r, s'). s) replay;
               new_states = map (\<lambda>(s, a, r, s'). s') replay
           in case bindE (row_actions (map (\<lambda>(s, a, r, s'). a) replay)) (\<lambda>actions.
                   bindE (rewards_column (map (\<lambda>(s, a, r, s'). r) replay)) (\<lambda>rewards.
                   Inr (actions, rewards))) of
                Inl e \<Rightarrow> Raise e (ag, m)
              | Inr (actions, rewards) \<Rightarrow>
                  (let policy = map (actor_net net (actor (model ag))) states;
                       pi_outs = critic_outputs net (critic (model ag)) states policy;
                       mean_q_pi = mean (map (\<lambda>(a, b). a + b) (zip (pi_outs ! 0) (pi_outs ! 1))) / 2;
                       target_v = critic_outputs net (critic (target_model ag)) new_states actions ! 2
                   in case columns_op (\<lambda>r v. r + gamma ag * v) rewards target_v of
                        Inl e \<Rightarrow> Raise e (ag, m)
                      | Inr q_backup \<Rightarrow>
                          (case evolution_block net fresh (o_parents orc) states ag of
                             Raise e ag1 \<Rightarrow> Raise e (ag1, m)
                           | Return _ ag1 \<Rightarrow>
                               (let gradients = critic_gradient net (critic (model ag1)) states
                                                  actions q_backup mean_q_pi;
                                    clipped = map (map (map (\<lambda>grad. clip_by_value grad (- 10) 10)))
                                                gradients
                                in Return ()
                                     (ag1\<lparr>model := (model ag1)
                                        \<lparr>critic := v_opt_apply net (opt_lr ag1) clipped
                                                     (critic (model ag1))\<rparr>\<rparr>,
                                      m))))))"

text \<open>\<open>lr_decay\<close>, \<open>gamma_updae\<close> and \<open>save\<close> of ne1.py (the files written are not modelled).\<close>

definition lr_decay_pg :: "nat \<Rightarrow> pg_agent \<Rightarrow> pg_agent" where
  "lr_decay_pg i ag = ag\<lparr>opt_lr := lr ag * (1 / 10 ^ 4) powr (real i / 10 ^ 7)\<rparr>"

definition gamma_updae_pg :: "nat \<Rightarrow> pg_agent \<Rightarrow> pg_agent" where
  "gamma_updae_pg i ag = ag\<lparr>gamma := 1 - (0.8 + (1 - 0.8) * exp (- (1 / 10 ^ 5) * real i))\<rparr>"

definition save_pg :: "nat \<Rightarrow> pg_agent \<Rightarrow> pg_agent" where
  "save_pg i ag = ag\<lparr>restore := True, saved_i := i\<rparr>"

text \<open>
  \<open>Agent.policy\<close> of ne1.py, lines 199 to 212:
  \<^verbatim>\<open>
    if i > 100:
        policy = self.model.actor.predict_on_batch(state)
        if (i + 1) % 5 != 0:
            epislon = .1 if self.random % 5 != 0 else .5
            policy += epislon * np.random.randn(policy.shape[0], policy.shape[1])
            epislon = 0. if self.random % 5 != 0 else .5
            policy = np.array([policy[i] if epislon < np.random.rand() else self.aciton_space.sample() for i in
                               range(policy.shape[0])])
            self.random += 1
    else:
        policy = np.array([self.aciton_space.sample() for _ in range(state.shape[0])])
    return policy
  \<close>
\<close>

definition policy_pg ::
  "'s pg_net \<Rightarrow> draws \<Rightarrow> 's list \<Rightarrow> nat \<Rightarrow> pg_agent \<Rightarrow> (pyval, pg_agent) outcome" where
  "policy_pg net orc state i ag =
     (if i > 100 then
        (let policy = map (actor_net net (actor (model ag))) state
         in if (i + 1) mod 5 \<noteq> 0 then
              (let epislon = (if random_ctr ag mod 5 \<noteq> 0 then 0.1 else 0.5);
                   noisy = map (\<lambda>(j, (a, b)). (a + epislon * fst (o_randn orc j),
                                                b + epislon * snd (o_randn orc j)))
                             (enumerate 0 policy);
                   epislon' = (if random_ctr ag mod 5 \<noteq> 0 then 0 else 0.5);
                   chosen = map (\<lambda>(j, row). if epislon' < o_rand orc j then row else o_box orc j)
                              (enumerate 0 noisy)
               in Return (Arr2 chosen) (ag\<lparr>random_ctr := random_ctr ag + 1\<rparr>))
            else Return (Arr2 policy) ag)
      else Return (Arr2 (map (\<lambda>j. o_box orc j) [0 ..< length state])) ag)"

section \<open>The agent loop (base.py, \<open>Base_Agent.run\<close>)\<close>

text \<open>
  The data and the constants of an agent: the market arrays loaded by \<open>gen_data\<close>,
  \<open>self.step_size\<close>, \<open>self.n\<close>, and the maximum to which the replay buffer clips a
  priority. The reward engine (\<open>new_rewards\<close>, not among the source files) is a
  collaborator with a state of its own: the two \<open>reward\<close> signatures the loop calls, the
  lists \<open>growth_rate\<close> and \<open>total_gain\<close> it exposes, and \<open>reset\<close>.
\<close>

record 's agent_data =
  data_x :: "'s list"
  data_y :: "real list"
  data_atr :: "real list"
  data_scale_atr :: "real list"
  data_high :: "real list"
  data_low :: "real list"
  step_size :: nat
  n_step :: nat
  priority_cap :: real

record 'r reward_engine =
  reward_dqn :: "real list \<Rightarrow> real list \<Rightarrow> real list \<Rightarrow> pyval \<Rightarrow> real list \<Rightarrow> real list \<Rightarrow> 'r \<Rightarrow> 'r"
  reward_pg :: "real list \<Rightarrow> real list \<Rightarrow> real list \<Rightarrow> pyval \<Rightarrow> pyval \<Rightarrow> pyval \<Rightarrow> pyval
                 \<Rightarrow> real list \<Rightarrow> real list \<Rightarrow> 'r \<Rightarrow> 'r"
  growth_rate :: "'r \<Rightarrow> real list"
  total_gain :: "'r \<Rightarrow> real list"
  reset_engine :: "'r \<Rightarrow> 'r"

text \<open>
  The methods a subclass overrides. \<open>Base_Agent\<close> declares them with the body \<open>pass\<close>.
\<close>

record ('w, 'z, 's) agent_ops =
  op_policy :: "draws \<Rightarrow> 's list \<Rightarrow> nat \<Rightarrow> ('w, 'z) base_agent_scheme
                  \<Rightarrow> (pyval, ('w, 'z) base_agent_scheme) outcome"
  op_sample :: "('w, 'z) base_agent_scheme \<Rightarrow> ('s, act) transition list \<Rightarrow> exn + real list"
  op_train :: "draws \<Rightarrow> ('w, 'z) base_agent_scheme \<Rightarrow> ('s, act) Memory
                 \<Rightarrow> (unit, ('w, 'z) base_agent_scheme \<times> ('s, act) Memory) outcome"
  op_lr_decay :: "nat \<Rightarrow> ('w, 'z) base_agent_scheme \<Rightarrow> ('w, 'z) base_agent_scheme"
  op_gamma_updae :: "nat \<Rightarrow> ('w, 'z) base_agent_scheme \<Rightarrow> ('w, 'z) base_agent_scheme"
  op_save :: "nat \<Rightarrow> ('w, 'z) base_agent_scheme \<Rightarrow> ('w, 'z) base_agent_scheme"

definition dqn_ops :: "('w, 's) dqn_net \<Rightarrow> ('w, unit, 's) agent_ops" where
  "dqn_ops net =
     \<lparr>op_policy = policy_dqn net, op_sample = sample_dqn net,
      op_train = (\<lambda>orc. train_dqn net (o_segment orc)),
      op_lr_decay = lr_decay_dqn, op_gamma_updae = (\<lambda>i ag. ag), op_save = save_agent\<rparr>"

definition pg_ops :: "'s pg_net \<Rightarrow> weights \<Rightarrow> (pg_model, unit pg_agent_ext, 's) agent_ops" where
  "pg_ops net fresh =
     \<lparr>op_policy = policy_pg net, op_sample = sample_pg net, op_train = train_pg net fresh,
      op_lr_decay = lr_decay_pg, op_gamma_updae = gamma_updae_pg, op_save = save_pg\<rparr>"

text \<open>
  The state of the loop: the agent, \<open>self.memory\<close>, \<open>self.rewards\<close>, and the locals
  \<open>reset\<close> and \<open>h\<close>. (\<open>self.mem\<close>, an alias of the local deque that nothing reads, is
  left out, and so are the lines that print.)
\<close>

record ('w, 'z, 's, 'r) run_state =
  st_agent :: "('w, 'z) base_agent_scheme"
  st_memory :: "('s, act) Memory"
  st_rewards :: 'r
  st_reset :: nat
  st_h :: nat

text \<open>Lines 118 to 122: the start of the window.\<close>

definition next_h :: "draws \<Rightarrow> nat \<Rightarrow> nat \<Rightarrow> nat" where
  "next_h orc i h =
     (if (i + 1) mod 5 = 0 then o_h_eval orc else if i mod 5 \<noteq> 0 then o_h_train orc else h)"

text \<open>
  Lines 133 to 139: the action and the call of the reward engine. The result is the
  local \<open>action\<close> and the local \<open>q\<close>, which no branch binds when \<open>self.types\<close> is neither
  string.
  \<^verbatim>\<open>
    action = self.policy(df, i)
    if self.types == "PG":
        action, leverage, lc, tp, q = self.pg_action(action)
        self.rewards.reward(trend, high, low, action, leverage, lc, tp, atr, scale_atr)
    elif self.types == "DQN":
        self.rewards.reward(trend, high, low, action, atr, scale_atr)
        q = action
  \<close>
\<close>

definition act_and_reward ::
  "('w, 'z, 's) agent_ops \<Rightarrow> 'r reward_engine \<Rightarrow> draws \<Rightarrow> nat \<Rightarrow> 's list \<Rightarrow> real list \<Rightarrow> real list
     \<Rightarrow> real list \<Rightarrow> real list \<Rightarrow> real list \<Rightarrow> ('w, 'z, 's, 'r) run_state
     \<Rightarrow> (pyval \<times> pyval option, ('w, 'z, 's, 'r) run_state) outcome" where
  "act_and_reward ops eng orc i df trend atr scale_atr high low st =
     (case op_policy ops orc df i (st_agent st) of
        Raise e ag \<Rightarrow> Raise e (st\<lparr>st_agent := ag\<rparr>)
      | Return action ag \<Rightarrow>
          (let st1 = st\<lparr>st_agent := ag\<rparr>
           in if agent_types ag = ''PG'' then
                (case bindE (pg_action action) (unpack 5) of
                   Inl e \<Rightarrow> Raise e st1
                 | Inr vals \<Rightarrow>
                     Return (vals ! 0, Some (vals ! 4))
                       (st1\<lparr>st_rewards :=
                          reward_pg eng trend high low (vals ! 0) (vals ! 1) (vals ! 2) (vals ! 3)
                            atr scale_atr (st_rewards st1)\<rparr>))
              else if agent_types ag = ''DQN'' then
                Return (action, Some action)
                  (st1\<lparr>st_rewards := reward_dqn eng trend high low action atr scale_atr
                                        (st_rewards st1)\<rparr>)
              else Return (action, None) st1))"

text \<open>
  Lines 141 to 143:
  \<^verbatim>\<open>
    if (reset + 1) % 10000 == 0:
        self.memory = Memory(5000000)
        reset = 0
  \<close>
\<close>

definition rebuild_due :: "('w, 'z, 's, 'r) run_state \<Rightarrow> bool" where
  "rebuild_due st = ((st_reset st + 1) mod 10000 = 0)"

definition reset_memory :: "'s agent_data \<Rightarrow> ('w, 'z, 's, 'r) run_state \<Rightarrow> ('w, 'z, 's, 'r) run_state" where
  "reset_memory cfg st =
     (if rebuild_due st then st\<lparr>st_memory := Memory_new (priority_cap cfg) 5000000, st_reset := 0\<rparr>
      else st)"

text \<open>
  Lines 147 to 158, the rewards of the window from the engine's \<open>total_gain\<close>:
  \<^verbatim>\<open>
    rewards = np.zeros(len(self.rewards.growth_rate))
    for index, r in enumerate(self.rewards.total_gain):
        if index == 0:
            rewards[index] = 0
        else:
            rewards[index] = (np.log(r / self.rewards.total_gain[index - 1]) * 100)
            rewards[index] = int(rewards[index] * 10 ** 3) * (10 ** -2)
  \<close>
  \<open>int\<close> truncates towards zero. The gains are taken to be Python floats, whose
  division by zero raises; the logarithm of a negative quotient is NaN and that of zero
  is minus infinity, which \<open>int\<close> rejects with ValueError and OverflowError.
\<close>

definition py_int :: "real \<Rightarrow> int" where
  "py_int v = (if 0 \<le> v then \<lfloor>v\<rfloor> else \<lceil>v\<rceil>)"

fun rewards_loop :: "real list \<Rightarrow> real list \<Rightarrow> nat \<Rightarrow> real list \<Rightarrow> exn + real list" where
  "rewards_loop gains rewards index [] = Inr rewards"
| "rewards_loop gains rewards index (r # rest) =
     (if index = 0 then
        (if index < length rewards then rewards_loop gains (rewards[index := 0]) (Suc index) rest
         else Inl IndexError)
      else if gains ! (index - 1) = 0 then Inl ZeroDivisionError
      else if \<not> index < length rewards then Inl IndexError
      else if r / gains ! (index - 1) < 0 then Inl ValueError
      else if r / gains ! (index - 1) = 0 then Inl OverflowError
      else rewards_loop gains
             (rewards[index := real_of_int (py_int (ln (r / gains ! (index - 1)) * 100 * 10 ^ 3))
                                 * (1 / 10 ^ 2)])
             (Suc index) rest)"

definition window_rewards :: "real list \<Rightarrow> real list \<Rightarrow> exn + real list" where
  "window_rewards growth gains = rewards_loop gains (replicate (length growth) 0) 0 gains"

text \<open>
  \<open>random.sample(memory, k)\<close>: ValueError when the deque has fewer than \<open>k\<close> elements,
  else the elements at the \<open>k\<close> positions drawn, which are distinct and in range (a
  list of positions that is not in range is no outcome of the draw).
\<close>

definition random_sample :: "nat list \<Rightarrow> 'a list \<Rightarrow> nat \<Rightarrow> exn + 'a list" where
  "random_sample order items k =
     (if length items < k then Inl ValueError else map_err (nth_err items) (take k order))"

text \<open>Lines 170 and 171: \<open>for e in range(len(ae)): self.memory.store(memory[e], ae[e])\<close>.\<close>

fun store_all ::
  "('s, 'a) transition list \<Rightarrow> real list \<Rightarrow> nat list \<Rightarrow> ('s, 'a) Memory \<Rightarrow> (unit, ('s, 'a) Memory) outcome" where
  "store_all memory ae [] m = Return () m"
| "store_all memory ae (e # es) m =
     (case bindE (nth_err memory e) (\<lambda>tr. store tr (ae ! e) m) of
        Inl err \<Rightarrow> Raise err m
      | Inr m' \<Rightarrow> store_all memory ae es m')"

text \<open>
  Lines 146 to 171, the storage of transitions:
  \<^verbatim>\<open>
    if (i + 1) % 5 != 0 and self.rewards.growth_rate:
        rewards = ...
        for t in range(0, len(trend) - 1):
            ...
        memory = random.sample(memory, int(self.step_size * 0.5))
        ae = self.sample(memory).reshape((-1,))
        for e in range(len(ae)):
            self.memory.store(memory[e], ae[e])
  \<close>
\<close>

definition read_q :: "pyval option \<Rightarrow> nat \<Rightarrow> exn + act" where
  "read_q q k = (case q of None \<Rightarrow> Inl NameError | Some arr \<Rightarrow> nth_err (pyval_items arr) k)"

definition store_transitions ::
  "('w, 'z, 's) agent_ops \<Rightarrow> 'r reward_engine \<Rightarrow> 's agent_data \<Rightarrow> draws \<Rightarrow> nat \<Rightarrow> 's list \<Rightarrow> nat
     \<Rightarrow> pyval option \<Rightarrow> ('w, 'z, 's, 'r) run_state \<Rightarrow> (unit, ('w, 'z, 's, 'r) run_state) outcome" where
  "store_transitions ops eng cfg orc i df len_trend q st =
     (if (i + 1) mod 5 \<noteq> 0 \<and> growth_rate eng (st_rewards st) \<noteq> [] then
        (case bindE (window_rewards (growth_rate eng (st_rewards st)) (total_gain eng (st_rewards st)))
                (\<lambda>rewards.
              bindE (accumulate (n_step cfg) len_trend df (read_q q) rewards) (\<lambda>memory.
              bindE (random_sample (o_order orc) memory (step_size cfg div 2)) (\<lambda>memory'.
              bindE (op_sample ops (st_agent st) memory') (\<lambda>ae. Inr (memory', ae))))) of
           Inl e \<Rightarrow> Raise e st
         | Inr (memory', ae) \<Rightarrow>
             (case store_all memory' ae [0 ..< length ae] (st_memory st) of
                Raise e m \<Rightarrow> Raise e (st\<lparr>st_memory := m\<rparr>)
              | Return _ m \<Rightarrow> Return () (st\<lparr>st_memory := m\<rparr>)))
      else Return () st)"

text \<open>
  Lines 173 to 178:
  \<^verbatim>\<open>
    if reset > 50:
        self.train()
    self.lr_decay(i)
    self.gamma_updae(i)

    reset += 1
  \<close>
\<close>

definition train_and_decay ::
  "('w, 'z, 's) agent_ops \<Rightarrow> draws \<Rightarrow> nat \<Rightarrow> ('w, 'z, 's, 'r) run_state
     \<Rightarrow> (unit, ('w, 'z, 's, 'r) run_state) outcome" where
  "train_and_decay ops orc i st =
     bindO (if st_reset st > 50 then
              (case op_train ops orc (st_agent st) (st_memory st) of
                 Raise e (ag, m) \<Rightarrow> Raise e (st\<lparr>st_agent := ag, st_memory := m\<rparr>)
               | Return _ (ag, m) \<Rightarrow> Return () (st\<lparr>st_agent := ag, st_memory := m\<rparr>))
            else Return () st)
       (\<lambda>_ st1.
          Return ()
            (st1\<lparr>st_agent := op_gamma_updae ops i (op_lr_decay ops i (st_agent st1)),
                 st_reset := st_reset st1 + 1\<rparr>))"

text \<open>Lines 192 to 195: \<open>save\<close> every 500 iterations, then \<open>self.rewards.reset()\<close>.\<close>

definition finish_iteration ::
  "('w, 'z, 's) agent_ops \<Rightarrow> 'r reward_engine \<Rightarrow> nat \<Rightarrow> ('w, 'z, 's, 'r) run_state
     \<Rightarrow> ('w, 'z, 's, 'r) run_state" where
  "finish_iteration ops eng i st =
     (let st1 = (if (i + 1) mod 500 = 0 then st\<lparr>st_agent := op_save ops i (st_agent st)\<rparr> else st)
      in st1\<lparr>st_rewards := reset_engine eng (st_rewards st1)\<rparr>)"

text \<open>One round of the loop, lines 118 to 195.\<close>

definition iteration ::
  "('w, 'z, 's) agent_ops \<Rightarrow> 'r reward_engine \<Rightarrow> 's agent_data \<Rightarrow> draws \<Rightarrow> nat
     \<Rightarrow> ('w, 'z, 's, 'r) run_state \<Rightarrow> (unit, ('w, 'z, 's, 'r) run_state) outcome" where
  "iteration ops eng cfg orc i st =
     (let h = next_h orc i (st_h st);
          df = pyslice h (h + step_size cfg) (data_x cfg);
          trend = pyslice h (h + step_size cfg) (data_y cfg);
          atr = pyslice h (h + step_size cfg) (data_atr cfg);
          scale_atr = pyslice h (h + step_size cfg) (data_scale_atr cfg);
          high = pyslice h (h + step_size cfg) (data_high cfg);
          low = pyslice h (h + step_size cfg) (data_low cfg)
      in bindO (act_and_reward ops eng orc i df trend atr scale_atr high low (st\<lparr>st_h := h\<rparr>))
           (\<lambda>(action, q) st1.
         bindO (store_transitions ops eng cfg orc i df (length trend) q (reset_memory cfg st1))
           (\<lambda>_ st2.
         bindO (train_and_decay ops orc i st2)
           (\<lambda>_ st3. Return () (finish_iteration ops eng i st3)))))"

text \<open>
  The loop, lines 110 to 117: \<open>for i in range(start, i)\<close> with \<open>reset = 0\<close> and a first
  draw of \<open>h\<close>. \<open>orcs i\<close> are the random draws of round \<open>i\<close>.
\<close>

fun run_loop ::
  "('w, 'z, 's) agent_ops \<Rightarrow> 'r reward_engine \<Rightarrow> 's agent_data \<Rightarrow> (nat \<Rightarrow> draws) \<Rightarrow> nat list
     \<Rightarrow> ('w, 'z, 's, 'r) run_state \<Rightarrow> (unit, ('w, 'z, 's, 'r) run_state) outcome" where
  "run_loop ops eng cfg orcs [] st = Return () st"
| "run_loop ops eng cfg orcs (i # is) st =
     bindO (iteration ops eng cfg (orcs i) i st) (\<lambda>_ st'. run_loop ops eng cfg orcs is st')"

definition run ::
  "('w, 'z, 's) agent_ops \<Rightarrow> 'r reward_engine \<Rightarrow> 's agent_data \<Rightarrow> (nat \<Rightarrow> draws) \<Rightarrow> nat \<Rightarrow> bool
     \<Rightarrow> ('w, 'z) base_agent_scheme \<Rightarrow> ('s, act) Memory \<Rightarrow> 'r
     \<Rightarrow> (unit, ('w, 'z, 's, 'r) run_state) outcome" where
  "run ops eng cfg orcs h0 train ag m r =
     (let stop = (if train then 10000000 else 6);
          start0 = (if \<not> restore ag then 0 else saved_i ag);
          start = (if train then start0 else stop - 1)
      in run_loop ops eng cfg orcs [start ..< stop]
           \<lparr>st_agent = ag, st_memory = m, st_rewards = r, st_reset = 0, st_h = h0\<rparr>)"

section \<open>Concrete inputs\<close>

text \<open>
  Small inputs on which the theorems below are run: states are numbers, the networks
  are constant, the window has six steps and \<open>n = 3\<close>, and the engine reports a gain of 1
  at every step. The idle agent overrides nothing that learns, and its engine reports no
  growth, so that its loop can run for any number of rounds.
\<close>

definition ex_pg_net :: "nat pg_net" where
  "ex_pg_net = \<lparr>actor_net = (\<lambda>w s. (0.6, - 0.2)), critic_net = (\<lambda>w s a. (1, 2, 3)),
      critic_gradient = (\<lambda>w ss acts qb v. w), v_opt_apply = (\<lambda>rate g w. w)\<rparr>"

definition ex_engine :: "real list reward_engine" where
  "ex_engine = \<lparr>reward_dqn = (\<lambda>trend high low action atr scale_atr r. [1, 1, 1, 1, 1, 1]),
      reward_pg = (\<lambda>trend high low action leverage lc tp atr scale_atr r. [1, 1, 1, 1, 1, 1]),
      growth_rate = (\<lambda>r. r), total_gain = (\<lambda>r. r), reset_engine = (\<lambda>r. [])\<rparr>"

definition ex_data :: "nat agent_data" where
  "ex_data = \<lparr>data_x = [0 ..< 12], data_y = replicate 12 0, data_atr = replicate 12 1,
      data_scale_atr = replicate 12 1, data_high = replicate 12 2, data_low = replicate 12 0,
      step_size = 6, n_step = 3, priority_cap = 1\<rparr>"

definition ex_draws :: draws where
  "ex_draws = \<lparr>o_h_eval = 6, o_h_train = 0, o_rand = (\<lambda>j. 0.5), o_randint3 = (\<lambda>j. 0),
      o_randn = (\<lambda>j. (0, 0)), o_box = (\<lambda>j. (0.25, 0.75)), o_order = [2, 0, 1],
      o_segment = (\<lambda>j. 0.5), o_parents = []\<rparr>"

definition ex_pg_state :: "(pg_model, unit pg_agent_ext, nat, real list) run_state" where
  "ex_pg_state = \<lparr>st_agent = pg_init \<lparr>actor = [], critic = []\<rparr> 0.001 False 0 (\<lambda>k. []),
      st_memory = Memory_new 1 5000000, st_rewards = [], st_reset = 0, st_h = 0\<rparr>"

definition ex_dqn_net :: "(nat, nat) dqn_net" where
  "ex_dqn_net = \<lparr>predict = (\<lambda>w s. if w = 0 then [0, 5, 1] else [9, 2, 7]),
      gradient = (\<lambda>w ss qb. [[20, - 30, 1]]), apply_gradients = (\<lambda>rate g w. w)\<rparr>"

definition ex_dqn_state :: "(nat, unit, nat, real list) run_state" where
  "ex_dqn_state = \<lparr>st_agent = (dqn_init ''DQN'' 0 0.001 False 0)\<lparr>target_model := 1\<rparr>,
      st_memory = Memory_new 1 5000000, st_rewards = [], st_reset = 0, st_h = 0\<rparr>"


definition idle_ops :: "(nat, unit, nat) agent_ops" where
  "idle_ops = \<lparr>op_policy = (\<lambda>orc df i ag. Return (IntArr []) ag), op_sample = (\<lambda>ag memory. Inr []),
      op_train = (\<lambda>orc ag m. Return () (ag, m)), op_lr_decay = (\<lambda>i ag. ag),
      op_gamma_updae = (\<lambda>i ag. ag), op_save = (\<lambda>i ag. ag)\<rparr>"

definition idle_engine :: "unit reward_engine" where
  "idle_engine = \<lparr>reward_dqn = (\<lambda>trend high low action atr scale_atr r. r),
      reward_pg = (\<lambda>trend high low action leverage lc tp atr scale_atr r. r),
      growth_rate = (\<lambda>r. []), total_gain = (\<lambda>r. []), reset_engine = (\<lambda>r. r)\<rparr>"

definition idle_data :: "nat agent_data" where
  "idle_data = \<lparr>data_x = [], data_y = [], data_atr = [], data_scale_atr = [], data_high = [],
      data_low = [], step_size = 96, n_step = 3, priority_cap = 1\<rparr>"

definition idle_draws :: draws where
  "idle_draws = \<lparr>o_h_eval = 0, o_h_train = 0, o_rand = (\<lambda>j. 0), o_randint3 = (\<lambda>j. 0),
      o_randn = (\<lambda>j. (0, 0)), o_box = (\<lambda>j. (0, 0)), o_order = [],
      o_segment = (\<lambda>j. 0), o_parents = []\<rparr>"

definition idle_state :: "(nat, unit, nat, unit) run_state" where
  "idle_state = \<lparr>st_agent = dqn_init ''DQN'' 0 0 False 0, st_memory = Memory_new 1 5000000,
      st_rewards = (), st_reset = 0, st_h = 0\<rparr>"

text \<open>
  The value of the local \<open>reset\<close> after a round that started with \<open>r\<close>: lines 141 to 143
  set it to 0 when the guard holds, line 178 adds 1.
\<close>

definition reset_next :: "nat \<Rightarrow> nat" where
  "reset_next r = (if (r + 1) mod 10000 = 0 then 1 else r + 1)"

section \<open>The parent draw as the specification words it\<close>

text \<open>
  Section 4.4 of the specification: parents are drawn with replacement, with the softmax
  of \<open>|fitness| / \<Sigma>|fitness| * sign(fitness)\<close> as sampling weights. \<open>spec_picks\<close> are the
  draws this allows; \<open>possible_picks\<close> above are those of the program.
\<close>

definition spec_weights :: "real list \<Rightarrow> exn + real list" where
  "spec_weights fitnesses =
     softmax (map (\<lambda>f. \<bar>f\<bar> / sum_list (map abs fitnesses) * sgn f) fitnesses)"


section \<open>Repeated training and further inputs\<close>

text \<open>
  \<open>train_repeat\<close> is \<open>k\<close> calls of \<open>train\<close> of the actor-critic agent one after the
  other, call \<open>j\<close> with the draws \<open>orcs j\<close>; a call that raises leaves the agent and the
  buffer as they were at the raise. \<open>outcome_state\<close> is the state a call ends in,
  returning or raising, and \<open>outcome_result\<close> the value it returns, if it returns.
\<close>

fun train_repeat ::
  "'s pg_net \<Rightarrow> weights \<Rightarrow> (nat \<Rightarrow> draws) \<Rightarrow> nat \<Rightarrow> pg_agent \<times> ('s, act) Memory
     \<Rightarrow> pg_agent \<times> ('s, act) Memory" where
  "train_repeat net fresh orcs 0 s = s"
| "train_repeat net fresh orcs (Suc k) s =
     (case train_pg net fresh (orcs k) (fst (train_repeat net fresh orcs k s))
             (snd (train_repeat net fresh orcs k s)) of
        Return v s' \<Rightarrow> s'
      | Raise e s' \<Rightarrow> s')"

definition outcome_state :: "('a, 's) outcome \<Rightarrow> 's" where
  "outcome_state r = (case r of Return v s \<Rightarrow> s | Raise e s \<Rightarrow> s)"

definition outcome_result :: "('a, 's) outcome \<Rightarrow> 'a option" where
  "outcome_result r = (case r of Return v s \<Rightarrow> Some v | Raise e s \<Rightarrow> None)"

text \<open>
  A population of ten with distinct fitnesses, none of them zero, and a second set of
  random draws.
\<close>

definition member :: "nat \<Rightarrow> real \<Rightarrow> individual" where
  "member k f = \<lparr>ind_w = [[[real k]]], fitness = f\<rparr>"

definition ex_population :: neuro_evolution where
  "ex_population = (NeuroEvolution_init 10 0.1 (\<lambda>k. [[[real k]]]))
     \<lparr>population := [member 0 3, member 1 (- 1), member 2 7, member 3 2, member 4 10,
                      member 5 (- 4), member 6 5, member 7 8, member 8 1, member 9 6]\<rparr>"

definition ex_draws_alt :: draws where
  "ex_draws_alt = \<lparr>o_h_eval = 1, o_h_train = 2, o_rand = (\<lambda>j. 0.05), o_randint3 = (\<lambda>j. 2),
      o_randn = (\<lambda>j. (1, - 1)), o_box = (\<lambda>j. (- 0.5, 0.5)), o_order = [1, 2, 0],
      o_segment = (\<lambda>j. 0.25), o_parents = [1]\<rparr>"

text \<open>A buffer that holds 128 copies of one transition of the actor-critic agent.\<close>

definition ex_transition :: "(nat, act) transition" where
  "ex_transition = (0, RowAct (0.5, 0.5), Elem 0, 1)"

definition ex_memory :: "(nat, act) Memory" where
  "ex_memory = \<lparr>capacity = 5000000, max_priority = 1,
      leaves = replicate 128 (1, ex_transition), write_ptr = 128\<rparr>"

section \<open>Properties of the n-step accumulator\<close>

lemma nstep_loop_sum:
  "fst (nstep_loop d r xs) = d + (\<Sum>x\<leftarrow>xs. 0.99 * x)"
  by (induction xs arbitrary: d r) (simp_all add: algebra_simps)

lemma nstep_loop_last:
  "xs \<noteq> [] \<Longrightarrow> snd (nstep_loop d r xs) = Elem (last xs)"
  by (induction xs arbitrary: d r) (auto simp: neq_Nil_conv)

lemma nstep_returns_last: "xs \<noteq> [] \<Longrightarrow> nstep xs = Elem (last xs)"
  by (simp add: nstep_def nstep_loop_last)

lemma nstep_empty: "nstep [] = Whole []"
  by (simp add: nstep_def)

text \<open>
  C1. The claim: the transition emitted at \<open>tau\<close> carries the sum of \<open>0.99 * r[i]\<close>
  over \<open>i\<close> in \<open>[tau+1, tau+n)\<close>, so 2.97 at \<open>tau = 0\<close> and 4.95 at \<open>tau = 1\<close> for the
  rewards 0, 1, 2, 3, 4 and \<open>n = 3\<close>. On that input the program emits two transitions
  whose returns are the last rewards of the two slices, 2 and 3; the sums 2.97 and 4.95
  are what \<open>discount_r\<close> holds when \<open>nstep\<close> returns, and they are further than 1e-6 from
  what is returned.
\<close>

theorem nstep_returns_last_reward_not_sum:
  "accumulate 3 5 [10, 11, 12, 13, 14 :: nat] (nth_err [0, 1, 2, 0, 1 :: nat]) [0, 1, 2, 3, 4]
     = Inr [(10, 0, Elem 2, 13), (11, 1, Elem 3, 14)]
   \<and> nstep_loop 0 (Whole [1, 2]) [1, 2] = (297 / 100, Elem 2)
   \<and> nstep_loop 0 (Whole [2, 3]) [2, 3] = (495 / 100, Elem 3)
   \<and> \<bar>2 - 297 / 100 :: real\<bar> > 1 / 10 ^ 6
   \<and> \<bar>3 - 495 / 100 :: real\<bar> > 1 / 10 ^ 6"
  by (simp add: accumulate_def append_transition_def bindE_def nth_err_def pyslice_def
      nstep_def upt_rec)

section \<open>Properties of the value-based loss\<close>

lemma argmax_from_range:
  "argmax_from best bv i xs = best \<or> (i \<le> argmax_from best bv i xs \<and> argmax_from best bv i xs < i + length xs)"
proof (induction xs arbitrary: best bv i)
  case Nil
  show ?case by simp
next
  case (Cons x xs)
  show ?case
  proof (cases "bv < x")
    case True
    with Cons.IH[of i x "Suc i"] show ?thesis by auto
  next
    case False
    with Cons.IH[of best bv "Suc i"] show ?thesis by auto
  qed
qed

lemma argmax_lt: "xs \<noteq> [] \<Longrightarrow> \<exists>j. argmax xs = Inr j \<and> j < length xs"
proof (cases xs)
  case Nil
  assume "xs \<noteq> []"
  with Nil show ?thesis by simp
next
  case (Cons x r)
  from argmax_from_range[of 0 x 1 r] have "argmax_from 0 x 1 r < Suc (length r)" by auto
  with Cons show ?thesis by (simp add: argmax_def)
qed

lemma argmax_from_greatest:
  assumes "best < length ys" "bv = ys ! best" "\<forall>i<length ys. ys ! i \<le> bv" "\<forall>i<best. ys ! i < bv"
  shows "let j = argmax_from best bv (length ys) xs in
           j < length (ys @ xs) \<and> (\<forall>i<length (ys @ xs). (ys @ xs) ! i \<le> (ys @ xs) ! j)
           \<and> (\<forall>i<j. (ys @ xs) ! i < (ys @ xs) ! j)"
  using assms
proof (induction xs arbitrary: best bv ys)
  case Nil
  then show ?case by simp
next
  case (Cons x xs)
  show ?case
  proof (cases "bv < x")
    case True
    have "let j = argmax_from (length ys) x (length (ys @ [x])) xs in
           j < length ((ys @ [x]) @ xs) \<and> (\<forall>i<length ((ys @ [x]) @ xs). ((ys @ [x]) @ xs) ! i \<le> ((ys @ [x]) @ xs) ! j)
           \<and> (\<forall>i<j. ((ys @ [x]) @ xs) ! i < ((ys @ [x]) @ xs) ! j)"
    proof (rule Cons.IH)
      show "length ys < length (ys @ [x])" by simp
      show "x = (ys @ [x]) ! length ys" by simp
      show "\<forall>i<length (ys @ [x]). (ys @ [x]) ! i \<le> x"
        using Cons.prems(3) True by (auto simp: nth_append less_Suc_eq)
      show "\<forall>i<length ys. (ys @ [x]) ! i < x"
        using Cons.prems(3) True by (auto simp: nth_append)
    qed
    with True show ?thesis by simp
  next
    case False
    have "let j = argmax_from best bv (length (ys @ [x])) xs in
           j < length ((ys @ [x]) @ xs) \<and> (\<forall>i<length ((ys @ [x]) @ xs). ((ys @ [x]) @ xs) ! i \<le> ((ys @ [x]) @ xs) ! j)
           \<and> (\<forall>i<j. ((ys @ [x]) @ xs) ! i < ((ys @ [x]) @ xs) ! j)"
    proof (rule Cons.IH)
      show "best < length (ys @ [x])" using Cons.prems(1) by simp
      show "bv = (ys @ [x]) ! best" using Cons.prems(1,2) by (simp add: nth_append)
      show "\<forall>i<length (ys @ [x]). (ys @ [x]) ! i \<le> bv"
        using Cons.prems(3) False by (auto simp: nth_append less_Suc_eq)
      show "\<forall>i<best. (ys @ [x]) ! i < bv"
        using Cons.prems(1,4) by (auto simp: nth_append)
    qed
    with False show ?thesis by simp
  qed
qed

lemma argmax_greatest:
  assumes "argmax xs = Inr j"
  shows "j < length xs \<and> (\<forall>i<length xs. xs ! i \<le> xs ! j) \<and> (\<forall>i<j. xs ! i < xs ! j)"
proof (cases xs)
  case Nil
  with assms show ?thesis by (simp add: argmax_def)
next
  case (Cons x r)
  with assms have j: "j = argmax_from 0 x (length [x]) r" by (simp add: argmax_def)
  have "let j = argmax_from 0 x (length [x]) r in
           j < length ([x] @ r) \<and> (\<forall>i<length ([x] @ r). ([x] @ r) ! i \<le> ([x] @ r) ! j)
           \<and> (\<forall>i<j. ([x] @ r) ! i < ([x] @ r) ! j)"
    by (rule argmax_from_greatest) simp_all
  with j Cons show ?thesis by (simp add: Let_def)
qed

lemma backup_row_ok:
  assumes "i < length rewards" "i < length target_q" "i < length arg_q"
    "i < length actions" "i < length q_backup"
    "length (arg_q ! i) = k" "length (target_q ! i) = k" "length (q_backup ! i) = k"
    "actions ! i < k"
  shows "\<exists>j. argmax (arg_q ! i) = Inr j \<and> backup_row g target_q arg_q rewards actions q_backup i =
     Inr (q_backup[i := (q_backup ! i)[actions ! i := rewards ! i + g * (target_q ! i) ! j]])"
proof -
  from assms have ne: "arg_q ! i \<noteq> []" by auto
  from argmax_lt[OF ne] obtain j where j: "argmax (arg_q ! i) = Inr j" "j < k"
    using assms by auto
  with assms show ?thesis
    by (simp add: backup_row_def bindE_def nth_err_def)
qed


lemma loss_loop_rows:
  assumes shapes: "length target_q = N" "length arg_q = N" "length actions = N" "length rewards = N"
    "\<forall>i<N. length (arg_q ! i) = k \<and> length (target_q ! i) = k \<and> actions ! i < k"
  shows "m \<le> N \<Longrightarrow> length qb = N \<Longrightarrow> \<forall>i<N. length (qb ! i) = k \<Longrightarrow>
    \<exists>qb'. loss_loop g target_q arg_q rewards actions qb [m ..< N] = Inr qb' \<and> length qb' = N \<and>
      (\<forall>i<N. if i < m then qb' ! i = qb ! i
              else (\<exists>j. argmax (arg_q ! i) = Inr j \<and>
                     qb' ! i = (qb ! i)[actions ! i := rewards ! i + g * (target_q ! i) ! j]))"
proof (induction "N - m" arbitrary: m qb)
  case 0
  then have "m = N" by simp
  with 0 show ?case by simp
next
  case (Suc d)
  then have mN: "m < N" by simp
  from mN shapes Suc.prems obtain j where
    j: "argmax (arg_q ! m) = Inr j" and
    row: "backup_row g target_q arg_q rewards actions qb m =
      Inr (qb[m := (qb ! m)[actions ! m := rewards ! m + g * (target_q ! m) ! j]])"
    using backup_row_ok[of m rewards target_q arg_q actions qb k g] by auto
  define qb1 where "qb1 = qb[m := (qb ! m)[actions ! m := rewards ! m + g * (target_q ! m) ! j]]"
  have len1: "length qb1 = N" using Suc.prems by (simp add: qb1_def)
  have rows1: "\<forall>i<N. length (qb1 ! i) = k"
    using Suc.prems mN by (auto simp: qb1_def nth_list_update)
  have d: "d = N - Suc m" using Suc.hyps(2) by simp
  from Suc.hyps(1)[OF d _ len1 rows1] mN obtain qb' where
    qb': "loss_loop g target_q arg_q rewards actions qb1 [Suc m ..< N] = Inr qb'" "length qb' = N"
      "\<forall>i<N. if i < Suc m then qb' ! i = qb1 ! i
              else (\<exists>j. argmax (arg_q ! i) = Inr j \<and>
                     qb' ! i = (qb1 ! i)[actions ! i := rewards ! i + g * (target_q ! i) ! j])"
    by auto
  have "loss_loop g target_q arg_q rewards actions qb [m ..< N] = Inr qb'"
    using mN row qb'(1) by (simp add: upt_conv_Cons bindE_def qb1_def)
  moreover have "\<forall>i<N. if i < m then qb' ! i = qb ! i
              else (\<exists>j. argmax (arg_q ! i) = Inr j \<and>
                     qb' ! i = (qb ! i)[actions ! i := rewards ! i + g * (target_q ! i) ! j])"
  proof (intro allI impI)
    fix i assume iN: "i < N"
    consider "i < m" | "i = m" | "m < i" by linarith
    then show "if i < m then qb' ! i = qb ! i
              else (\<exists>j. argmax (arg_q ! i) = Inr j \<and>
                     qb' ! i = (qb ! i)[actions ! i := rewards ! i + g * (target_q ! i) ! j])"
    proof cases
      case 1
      then have "qb1 ! i = qb ! i" by (simp add: qb1_def)
      moreover from 1 qb'(3) iN have "qb' ! i = qb1 ! i" by simp
      ultimately show ?thesis using 1 by simp
    next
      case 2
      with qb'(3) iN have "qb' ! i = qb1 ! i" by simp
      moreover have "qb1 ! m = (qb ! m)[actions ! m := rewards ! m + g * (target_q ! m) ! j]"
        using mN Suc.prems(2) by (simp add: qb1_def)
      ultimately show ?thesis using 2 j by simp
    next
      case 3
      then have same: "qb1 ! i = qb ! i" by (simp add: qb1_def)
      from 3 have "\<not> i < Suc m" by simp
      with qb'(3) iN have "\<exists>j. argmax (arg_q ! i) = Inr j \<and>
                     qb' ! i = (qb1 ! i)[actions ! i := rewards ! i + g * (target_q ! i) ! j]"
        by metis
      with 3 same show ?thesis by simp
    qed
  qed
  ultimately show ?case using qb'(2) by blast
qed


text \<open>
  C6. Whenever the batch is well shaped (one reward, one action and one next state per
  state, \<open>k\<close> action values per row, every action below \<open>k\<close>), \<open>loss\<close> returns, and the
  entry of \<open>q_backup\<close> at the action taken in row \<open>i\<close> is
  \<open>rewards[i] + gamma * target_q[i, j]\<close>, where \<open>j\<close> is the argmax of the online
  network's row for the next state; the other entries of the row are those of \<open>q\<close>. The
  discount of the value-based agent is the 0.4 of \<open>Base_Agent.__init__\<close>. With reward 1
  and target value 2 at the online argmax the entry is 1.8.
\<close>

theorem dqn_loss_backup:
  assumes "length states = length rewards" "length new_states = length rewards"
    "length actions = length rewards"
    "\<forall>w s. length (qnet w s) = k" "list_all (\<lambda>a. a < k) actions"
  shows "gamma (dqn_init types0 w0 lr0 restore0 i0) = 0.4 \<and>
    (\<exists>q_backup. loss qnet ag states new_states rewards actions
        = Inr (q_backup, map (qnet (model ag)) states)
      \<and> length q_backup = length rewards
      \<and> (\<forall>i<length rewards. \<exists>j. argmax (qnet (model ag) (new_states ! i)) = Inr j
            \<and> q_backup ! i = (qnet (model ag) (states ! i))
                 [actions ! i := rewards ! i + gamma ag * qnet (target_model ag) (new_states ! i) ! j]
            \<and> q_backup ! i ! (actions ! i)
                 = rewards ! i + gamma ag * qnet (target_model ag) (new_states ! i) ! j))"
proof -
  let ?N = "length rewards"
  let ?q = "map (qnet (model ag)) states"
  let ?tq = "map (qnet (target_model ag)) new_states"
  let ?aq = "map (qnet (model ag)) new_states"
  have acts: "\<forall>i<?N. actions ! i < k"
    using assms(3,5) by (simp add: list_all_length)
  have shapes: "\<forall>i<?N. length (?aq ! i) = k \<and> length (?tq ! i) = k \<and> actions ! i < k"
    using assms acts by simp
  have rows: "\<forall>i<?N. length (?q ! i) = k" using assms by simp
  from loss_loop_rows[of ?tq ?N ?aq actions rewards k 0 ?q "gamma ag"] shapes rows assms
  obtain qb where qb: "loss_loop (gamma ag) ?tq ?aq rewards actions ?q [0 ..< ?N] = Inr qb"
    "length qb = ?N"
    "\<forall>i<?N. \<exists>j. argmax (?aq ! i) = Inr j \<and>
        qb ! i = (?q ! i)[actions ! i := rewards ! i + gamma ag * (?tq ! i) ! j]"
    by auto
  have l: "loss qnet ag states new_states rewards actions = Inr (qb, ?q)"
    using qb(1) by (simp add: loss_def Let_def bindE_def)
  have pt: "\<forall>i<?N. \<exists>j. argmax (qnet (model ag) (new_states ! i)) = Inr j
            \<and> qb ! i = (qnet (model ag) (states ! i))
                 [actions ! i := rewards ! i + gamma ag * qnet (target_model ag) (new_states ! i) ! j]
            \<and> qb ! i ! (actions ! i)
                 = rewards ! i + gamma ag * qnet (target_model ag) (new_states ! i) ! j"
  proof (intro allI impI)
    fix i assume i: "i < ?N"
    with qb(3) obtain j where j: "argmax (?aq ! i) = Inr j"
      "qb ! i = (?q ! i)[actions ! i := rewards ! i + gamma ag * (?tq ! i) ! j]" by blast
    have "actions ! i < length (qnet (model ag) (states ! i))" using acts i assms(4) by simp
    with j i assms(1,2) show "\<exists>j. argmax (qnet (model ag) (new_states ! i)) = Inr j
            \<and> qb ! i = (qnet (model ag) (states ! i))
                 [actions ! i := rewards ! i + gamma ag * qnet (target_model ag) (new_states ! i) ! j]
            \<and> qb ! i ! (actions ! i)
                 = rewards ! i + gamma ag * qnet (target_model ag) (new_states ! i) ! j"
      by simp
  qed
  have "gamma (dqn_init types0 w0 lr0 restore0 i0) = 0.4" by (simp add: dqn_init_def)
  with l qb(2) pt show ?thesis by blast
qed

theorem dqn_loss_backup_witness:
  "loss (\<lambda>w s. if w = (0::nat) then [0, 5, 1] else [9, 2, 7])
        ((dqn_init ''DQN'' (0::nat) 0 False 0)\<lparr>target_model := 1\<rparr>) [0::nat] [1] [1] [2]
     = Inr ([[0, 5, 18 / 10]], [[0, 5, 1]])
   \<and> argmax [0, 5, 1] = Inr 1"
  using dqn_loss_backup[of "[0::nat]" "[1]" "[1]" "[2]"
      "\<lambda>w s. if w = (0::nat) then [0, 5, 1] else [9, 2, 7]" 3 "''DQN''" "0::nat" 0 False 0
      "(dqn_init ''DQN'' (0::nat) 0 False 0)\<lparr>target_model := 1\<rparr>"]
  by (simp add: loss_def Let_def bindE_def backup_row_def nth_err_def argmax_def dqn_init_def)

section \<open>Properties of the agent loop\<close>

lemma policy_pg_returns:
  "\<exists>rows ag'. policy_pg net orc state i ag = Return (Arr2 rows) ag' \<and> agent_types ag' = agent_types ag"
  by (simp add: policy_pg_def Let_def)

text \<open>
  C9. \<open>pg_action\<close> returns a tuple of three values for every array of action rows, and
  unpacking it into five names raises ValueError. So every round of the loop of an agent
  whose \<open>types\<close> is "PG", with the policy of ne1.py, raises ValueError, and the state at
  the raise still has the reward engine (and the replay buffer) of the start of the
  round: \<open>reward\<close> was not called.
\<close>

theorem pg_branch_fails_at_unpacking:
  assumes "agent_types (st_agent st) = ''PG''"
  shows "(\<exists>a l q. pg_action (Arr2 rows) = Inr [a, l, q])
     \<and> bindE (pg_action (Arr2 rows)) (unpack 5) = Inl ValueError
     \<and> (\<exists>st'. iteration (pg_ops net fresh) eng cfg orc i st = Raise ValueError st'
           \<and> st_rewards st' = st_rewards st \<and> st_memory st' = st_memory st)"
proof -
  have three: "\<exists>a l q. pg_action (Arr2 rows) = Inr [a, l, q]"
    by (simp add: pg_action_def Let_def)
  have five: "\<And>rs. bindE (pg_action (Arr2 rs)) (unpack 5) = Inl ValueError"
    by (simp add: pg_action_def Let_def bindE_def unpack_def)
  let ?h = "next_h orc i (st_h st)"
  let ?df = "pyslice ?h (?h + step_size cfg) (data_x cfg)"
  from policy_pg_returns[of net orc ?df i "st_agent st"] obtain rs ag' where
    pol: "policy_pg net orc ?df i (st_agent st) = Return (Arr2 rs) ag'"
    and ty: "agent_types ag' = agent_types (st_agent st)" by blast
  have "iteration (pg_ops net fresh) eng cfg orc i st
          = Raise ValueError (st\<lparr>st_h := ?h, st_agent := ag'\<rparr>)"
    using pol ty assms five[of rs]
    by (simp add: iteration_def Let_def act_and_reward_def pg_ops_def bindO_def)
  then show ?thesis using three five by simp
qed

theorem pg_branch_fails_at_unpacking_witness:
  "\<exists>st'. iteration (pg_ops ex_pg_net []) ex_engine ex_data ex_draws 0 ex_pg_state = Raise ValueError st'
      \<and> st_rewards st' = [] \<and> st_memory st' = Memory_new 1 5000000"
  using pg_branch_fails_at_unpacking[of ex_pg_state "[]" ex_pg_net "[]" ex_engine ex_data ex_draws 0]
  by (simp add: ex_pg_state_def pg_init_def)

text \<open>
  C10. In a round with \<open>(i + 1) % 5 == 0\<close> the storage of transitions (lines 146 to 171)
  leaves the state of the loop, and with it the replay buffer, as it was.
\<close>

theorem evaluation_round_stores_nothing:
  "(i + 1) mod 5 = 0 \<Longrightarrow> store_transitions ops eng cfg orc i df len_trend q st = Return () st"
  by (simp add: store_transitions_def)

theorem evaluation_round_stores_nothing_witness:
  "store_transitions (dqn_ops ex_dqn_net) ex_engine ex_data ex_draws 4 [6, 7, 8, 9, 10, 11] 6
      (Some (IntArr [1, 1, 1, 1, 1, 1])) (ex_dqn_state\<lparr>st_rewards := [1, 1, 1, 1, 1, 1]\<rparr>)
     = Return () (ex_dqn_state\<lparr>st_rewards := [1, 1, 1, 1, 1, 1]\<rparr>)"
  using evaluation_round_stores_nothing[of 4 "dqn_ops ex_dqn_net" ex_engine ex_data ex_draws
      "[6, 7, 8, 9, 10, 11]" 6 "Some (IntArr [1, 1, 1, 1, 1, 1])"
      "ex_dqn_state\<lparr>st_rewards := [1, 1, 1, 1, 1, 1]\<rparr>"]
  by simp

text \<open>
  In a round that is not an evaluation round the same call stores the three transitions
  of the window, each with the absolute error 4.2 clipped to the buffer's maximum 1.
\<close>

lemma training_round_stores:
  "store_transitions (dqn_ops ex_dqn_net) ex_engine ex_data ex_draws 0 [0, 1, 2, 3, 4, 5] 6
      (Some (IntArr [1, 1, 1, 1, 1, 1])) (ex_dqn_state\<lparr>st_rewards := [1, 1, 1, 1, 1, 1]\<rparr>)
     = Return () (ex_dqn_state\<lparr>st_rewards := [1, 1, 1, 1, 1, 1],
         st_memory := \<lparr>capacity = 5000000, max_priority = 1,
           leaves = [(1, 2, IntAct 1, Elem 0, 5), (1, 0, IntAct 1, Elem 0, 3),
                     (1, 1, IntAct 1, Elem 0, 4)],
           write_ptr = 3\<rparr>\<rparr>)"
  by (simp add: dqn_ops_def bindE_def ex_dqn_state_def ex_data_def ex_draws_def ex_engine_def
      ex_dqn_net_def dqn_init_def pyslice_def argmax_def store_transitions_def window_rewards_def
      accumulate_def append_transition_def nth_err_def nstep_def read_q_def pyval_items_def
      random_sample_def sample_dqn_def rewards_column_def loss_def backup_row_def td_error_def
      store_def Memory_new_def py_int_def upt_rec Let_def)

lemma act_and_reward_reset:
  "act_and_reward ops eng orc i df trend atr scale_atr high low st = Return v st'
     \<Longrightarrow> st_reset st' = st_reset st"
  by (auto simp: act_and_reward_def Let_def split: outcome.splits if_splits sum.splits)

lemma store_transitions_reset:
  "store_transitions ops eng cfg orc i df len_trend q st = Return v st'
     \<Longrightarrow> st_reset st' = st_reset st"
  by (auto simp: store_transitions_def split: outcome.splits if_splits sum.splits prod.splits)

lemma train_and_decay_reset:
  "train_and_decay ops orc i st = Return v st' \<Longrightarrow> st_reset st' = st_reset st + 1"
  by (auto simp: train_and_decay_def bindO_def split: outcome.splits if_splits prod.splits)

lemma finish_iteration_reset: "st_reset (finish_iteration ops eng i st) = st_reset st"
  by (simp add: finish_iteration_def Let_def)

lemma reset_memory_rebuilds:
  "st_memory (reset_memory cfg st)
     = (if rebuild_due st then Memory_new (priority_cap cfg) 5000000 else st_memory st)"
  by (simp add: reset_memory_def)

lemma reset_memory_reset:
  "st_reset (reset_memory cfg st) = (if rebuild_due st then 0 else st_reset st)"
  by (simp add: reset_memory_def)

lemma iteration_reset:
  assumes "iteration ops eng cfg orc i st = Return v st'"
  shows "st_reset st' = reset_next (st_reset st)"
proof -
  let ?h = "next_h orc i (st_h st)"
  let ?sl = "\<lambda>xs. pyslice ?h (?h + step_size cfg) xs"
  from assms obtain action q st1 st2 st3 where
    a: "act_and_reward ops eng orc i (?sl (data_x cfg)) (?sl (data_y cfg)) (?sl (data_atr cfg))
          (?sl (data_scale_atr cfg)) (?sl (data_high cfg)) (?sl (data_low cfg)) (st\<lparr>st_h := ?h\<rparr>)
        = Return (action, q) st1"
    and s: "store_transitions ops eng cfg orc i (?sl (data_x cfg)) (length (?sl (data_y cfg))) q
              (reset_memory cfg st1) = Return () st2"
    and t: "train_and_decay ops orc i st2 = Return () st3"
    and f: "st' = finish_iteration ops eng i st3"
    by (auto simp: iteration_def Let_def bindO_def split: outcome.splits prod.splits)
  from act_and_reward_reset[OF a] have r1: "st_reset st1 = st_reset st" by simp
  from store_transitions_reset[OF s] have r2: "st_reset st2 = st_reset (reset_memory cfg st1)" .
  from train_and_decay_reset[OF t] have r3: "st_reset st3 = st_reset st2 + 1" .
  have "rebuild_due st1 = rebuild_due st" using r1 by (simp add: rebuild_due_def)
  with r1 r2 r3 f show ?thesis
    by (simp add: finish_iteration_reset reset_memory_reset reset_next_def rebuild_due_def)
qed

lemma run_loop_reset:
  "run_loop ops eng cfg orcs rounds st = Return v st'
     \<Longrightarrow> st_reset st' = (reset_next ^^ length rounds) (st_reset st)"
proof (induction rounds arbitrary: st)
  case Nil
  then show ?case by simp
next
  case (Cons i rounds)
  from Cons.prems obtain st1 where
    it: "iteration ops eng cfg (orcs i) i st = Return () st1"
    and rest: "run_loop ops eng cfg orcs rounds st1 = Return v st'"
    by (auto simp: bindO_def split: outcome.splits)
  from Cons.IH[OF rest] iteration_reset[OF it] show ?case
    by (simp add: funpow_swap1)
qed

lemma reset_guard_small:
  assumes "m < 9999"
  shows "((m + 2) mod 10000 = 0) = (m = (9998::nat))"
proof (cases "m = 9998")
  case True
  then show ?thesis by simp
next
  case False
  with assms have "m + 2 < 10000" by simp
  then have "(m + 2) mod 10000 = m + 2" by (rule mod_less)
  with False show ?thesis by simp
qed

lemma reset_next_mod:
  "reset_next (j mod 9999 + 1) = Suc j mod 9999 + 1"
proof -
  have m: "j mod 9999 < 9999" by simp
  have g: "((j mod 9999 + 1 + 1) mod 10000 = 0) = (j mod 9999 = 9998)"
    using reset_guard_small[OF m] by (simp add: add.assoc)
  show ?thesis
  proof (cases "j mod 9999 = 9998")
    case True
    then have "Suc j mod 9999 = 0" by (simp add: mod_Suc)
    with True g show ?thesis by (simp add: reset_next_def)
  next
    case False
    then have "Suc j mod 9999 = Suc (j mod 9999)" by (simp add: mod_Suc)
    with False g show ?thesis by (simp add: reset_next_def)
  qed
qed

lemma reset_next_closed:
  "(reset_next ^^ Suc j) 0 = j mod 9999 + 1"
proof (induction j)
  case 0
  show ?case by (simp add: reset_next_def)
next
  case (Suc j)
  have "(reset_next ^^ Suc (Suc j)) 0 = reset_next ((reset_next ^^ Suc j) 0)" by simp
  also have "\<dots> = reset_next (j mod 9999 + 1)" using Suc by simp
  also have "\<dots> = Suc j mod 9999 + 1" by (rule reset_next_mod)
  finally show ?case .
qed

text \<open>
  C7. The claim: the buffer is rebuilt exactly once every 10,000 rounds. The local
  \<open>reset\<close> is set to 0 by the rebuild and to 1 by the end of the same round, so the guard
  \<open>(reset + 1) % 10000 == 0\<close> next holds 9,999 rounds later: after \<open>k\<close> completed rounds
  of a loop that started with \<open>reset = 0\<close>, the guard of the next round holds exactly
  when \<open>k\<close> is a positive multiple of 9999. The rebuilds are in the rounds number 9999,
  19998, 29997 (counting from 0); the second comes 9,999 rounds after the first.
\<close>

theorem buffer_rebuild_cadence:
  assumes "run_loop ops eng cfg orcs [start ..< start + k] st = Return () st'"
    and "st_reset st = 0"
  shows "rebuild_due st' \<longleftrightarrow> 0 < k \<and> k mod 9999 = 0"
proof (cases k)
  case 0
  with run_loop_reset[OF assms(1)] assms(2) have "st_reset st' = 0" by simp
  with 0 show ?thesis by (simp add: rebuild_due_def)
next
  case (Suc j)
  with run_loop_reset[OF assms(1)] assms(2)
  have r: "st_reset st' = j mod 9999 + 1" using reset_next_closed[of j] by simp
  have m: "j mod 9999 < 9999" by simp
  have "rebuild_due st' = (j mod 9999 = 9998)"
    using reset_guard_small[OF m] r by (simp add: rebuild_due_def add.assoc)
  also have "\<dots> = (Suc j mod 9999 = 0)" by (simp add: mod_Suc)
  finally show ?thesis using Suc by simp
qed

lemma idle_iteration:
  "agent_types (st_agent st) = ''DQN'' \<Longrightarrow>
   \<exists>st'. iteration idle_ops idle_engine cfg orc i st = Return () st'
     \<and> agent_types (st_agent st') = ''DQN''"
  by (simp add: iteration_def Let_def act_and_reward_def idle_ops_def idle_engine_def bindO_def
      store_transitions_def train_and_decay_def finish_iteration_def reset_memory_def)

lemma idle_run_loop:
  "agent_types (st_agent st) = ''DQN'' \<Longrightarrow>
   \<exists>st'. run_loop idle_ops idle_engine cfg orcs rounds st = Return () st'"
proof (induction rounds arbitrary: st)
  case Nil
  show ?case by simp
next
  case (Cons i rounds)
  from idle_iteration[OF Cons.prems, of cfg "orcs i" i] obtain st1 where
    "iteration idle_ops idle_engine cfg (orcs i) i st = Return () st1"
    "agent_types (st_agent st1) = ''DQN''" by blast
  with Cons.IH[of st1] show ?case by (simp add: bindO_def)
qed

theorem buffer_rebuild_cadence_witness:
  "(\<exists>st'. run_loop idle_ops idle_engine idle_data (\<lambda>i. idle_draws) [0 ..< 0 + 19998] idle_state
            = Return () st' \<and> rebuild_due st')
   \<and> (\<exists>st'. run_loop idle_ops idle_engine idle_data (\<lambda>i. idle_draws) [0 ..< 0 + 19999] idle_state
            = Return () st' \<and> \<not> rebuild_due st')"
proof -
  have r0: "st_reset idle_state = 0" by (simp add: idle_state_def)
  have ty: "agent_types (st_agent idle_state) = ''DQN''" by (simp add: idle_state_def dqn_init_def)
  from idle_run_loop[OF ty] obtain s1 where
    s1: "run_loop idle_ops idle_engine idle_data (\<lambda>i. idle_draws) [0 ..< 0 + 19998] idle_state
           = Return () s1" by blast
  from idle_run_loop[OF ty] obtain s2 where
    s2: "run_loop idle_ops idle_engine idle_data (\<lambda>i. idle_draws) [0 ..< 0 + 19999] idle_state
           = Return () s2" by blast
  from buffer_rebuild_cadence[OF s1 r0] have d1: "rebuild_due s1" by simp
  from buffer_rebuild_cadence[OF s2 r0] have d2: "\<not> rebuild_due s2" by simp
  show ?thesis
  proof (rule conjI)
    show "\<exists>st'. run_loop idle_ops idle_engine idle_data (\<lambda>i. idle_draws) [0 ..< 0 + 19998]
            idle_state = Return () st' \<and> rebuild_due st'"
      by (rule exI[of _ s1], rule conjI, rule s1, rule d1)
    show "\<exists>st'. run_loop idle_ops idle_engine idle_data (\<lambda>i. idle_draws) [0 ..< 0 + 19999]
            idle_state = Return () st' \<and> \<not> rebuild_due st'"
      by (rule exI[of _ s2], rule conjI, rule s2, rule d2)
  qed
qed

section \<open>Properties of the two policies\<close>

text \<open>
  C8. The claim: for every agent variant \<open>policy(state, i)\<close> is deterministic when
  \<open>(i + 1) % 5 == 0\<close>. The policy of the value-based agent then does not read a random
  draw. The policy of the actor-critic agent tests \<open>i > 100\<close> first: from round 101 on it
  does not read a draw in such a round either, and up to round 100 it returns samples of
  the action space in every round.
\<close>

theorem evaluation_policy_deterministic:
  assumes "(i + 1) mod 5 = 0"
  shows "policy_dqn dnet orc state i ag = policy_dqn dnet orc' state i ag
    \<and> (100 < i \<longrightarrow> policy_pg pnet orc state' i pag = policy_pg pnet orc' state' i pag)"
  using assms by (simp add: policy_dqn_def policy_pg_def Let_def)

theorem evaluation_policy_deterministic_witness:
  "policy_dqn ex_dqn_net ex_draws [0, 1] 4 (st_agent ex_dqn_state)
     = policy_dqn ex_dqn_net ex_draws_alt [0, 1] 4 (st_agent ex_dqn_state)
   \<and> policy_pg ex_pg_net ex_draws [0, 1] 104 (st_agent ex_pg_state)
     = policy_pg ex_pg_net ex_draws_alt [0, 1] 104 (st_agent ex_pg_state)
   \<and> policy_pg ex_pg_net ex_draws [0, 1] 104 (st_agent ex_pg_state)
     = Return (Arr2 [(0.6, - 0.2), (0.6, - 0.2)]) (st_agent ex_pg_state)"
  using evaluation_policy_deterministic[of 4 ex_dqn_net ex_draws "[0, 1]" "st_agent ex_dqn_state"
      ex_draws_alt ex_pg_net "[0, 1]" "st_agent ex_pg_state"]
    evaluation_policy_deterministic[of 104 ex_dqn_net ex_draws "[0, 1]" "st_agent ex_dqn_state"
      ex_draws_alt ex_pg_net "[0, 1]" "st_agent ex_pg_state"]
  by (simp add: policy_pg_def ex_pg_net_def Let_def)

text \<open>
  The counterexample to C8 as stated: round 4 of the actor-critic agent, where
  \<open>(4 + 1) % 5 == 0\<close>, with the same state and weights and two different draws.
\<close>

theorem pg_policy_random_before_100:
  "(4 + 1) mod 5 = (0::nat)
   \<and> policy_pg ex_pg_net ex_draws [0, 1] 4 (st_agent ex_pg_state)
       = Return (Arr2 [(0.25, 0.75), (0.25, 0.75)]) (st_agent ex_pg_state)
   \<and> policy_pg ex_pg_net ex_draws_alt [0, 1] 4 (st_agent ex_pg_state)
       = Return (Arr2 [(- 0.5, 0.5), (- 0.5, 0.5)]) (st_agent ex_pg_state)
   \<and> policy_pg ex_pg_net ex_draws [0, 1] 4 (st_agent ex_pg_state)
       \<noteq> policy_pg ex_pg_net ex_draws_alt [0, 1] 4 (st_agent ex_pg_state)"
  by (simp add: policy_pg_def ex_draws_def ex_draws_alt_def upt_rec)

text \<open>In an exploring round the value-based policy does depend on the draws.\<close>

lemma exploring_policy_depends_on_draws:
  "policy_dqn ex_dqn_net ex_draws [0, 1] 0 (st_agent ex_dqn_state)
     = Return (IntArr [1, 1]) (st_agent ex_dqn_state)
   \<and> policy_dqn ex_dqn_net ex_draws_alt [0, 1] 0 (st_agent ex_dqn_state)
     = Return (IntArr [2, 2]) (st_agent ex_dqn_state)"
  by (simp add: policy_dqn_def ex_draws_def ex_draws_alt_def ex_dqn_net_def ex_dqn_state_def
      dqn_init_def argmax_def bindE_def Let_def)


section \<open>Properties of training\<close>

lemma evolution_block_closed:
  "epoch ag < 50 \<Longrightarrow> evolution_block net fresh picks states ag = Return () ag"
  by (simp add: evolution_block_def)

lemma train_pg_memory:
  "snd (outcome_state (train_pg net fresh orc ag m)) = m"
  by (auto simp: train_pg_def outcome_state_def Let_def split: sum.splits prod.splits outcome.splits)

lemma train_pg_gate_closed:
  assumes "epoch ag < 50"
  shows "epoch (fst (outcome_state (train_pg net fresh orc ag m))) = epoch ag
       \<and> ne (fst (outcome_state (train_pg net fresh orc ag m))) = ne ag
       \<and> target_model (fst (outcome_state (train_pg net fresh orc ag m))) = target_model ag
       \<and> actor (model (fst (outcome_state (train_pg net fresh orc ag m)))) = actor (model ag)"
  using assms
  by (auto simp: train_pg_def outcome_state_def Let_def evolution_block_closed
      split: sum.splits prod.splits outcome.splits)

lemma train_repeat_step:
  "train_repeat net fresh orcs (Suc k) s =
     outcome_state (train_pg net fresh (orcs k) (fst (train_repeat net fresh orcs k s))
        (snd (train_repeat net fresh orcs k s)))"
  by (simp add: outcome_state_def split: outcome.splits)

text \<open>
  C2. The claim: once the counter is at least 50, every second training iteration runs a
  generation of the population search and the soft update of the target network, for
  ever. The gate reads \<open>self.epoch\<close>, which \<open>build\<close> sets to 0 and no method assigns
  again. After any number of calls of \<open>train\<close> on the agent \<open>build\<close> makes, the counter
  is 0, the population is the initial one, the target network has its initial weights
  and the actor its own.
\<close>

theorem evolution_never_triggered:
  "epoch (fst (train_repeat net fresh orcs k (pg_init w0 lr0 restore0 i0 init_w, m))) = 0
   \<and> ne (fst (train_repeat net fresh orcs k (pg_init w0 lr0 restore0 i0 init_w, m)))
       = NeuroEvolution_init 100 0.1 init_w
   \<and> target_model (fst (train_repeat net fresh orcs k (pg_init w0 lr0 restore0 i0 init_w, m))) = w0
   \<and> actor (model (fst (train_repeat net fresh orcs k (pg_init w0 lr0 restore0 i0 init_w, m))))
       = actor w0"
proof (induction k)
  case 0
  show ?case by (simp add: pg_init_def)
next
  case (Suc k)
  let ?s = "train_repeat net fresh orcs k (pg_init w0 lr0 restore0 i0 init_w, m)"
  from Suc have e: "epoch (fst ?s) < 50" by simp
  from train_pg_gate_closed[OF e, of net fresh "orcs k" "snd ?s"] Suc
  show ?case by (simp add: train_repeat_step del: train_repeat.simps)
qed

text \<open>
  With the gate open (a counter of at least 50 and even, set from outside) the block
  raises in the first round of its loop over the population, where the three arrays of
  the critic are unpacked into two names: no generation is run and the target network
  is not updated.
\<close>

lemma evolution_block_raises:
  assumes "50 \<le> epoch ag" "epoch ag mod 2 = 0" "0 < population_size (ne ag)"
    "population (ne ag) \<noteq> []"
  shows "\<exists>ag'. evolution_block net fresh picks states ag = Raise ValueError ag'
           \<and> ne ag' = ne ag \<and> target_model ag' = target_model ag"
proof -
  from assms(3) have r: "[0 ..< population_size (ne ag)] = 0 # [1 ..< population_size (ne ag)]"
    by (simp add: upt_conv_Cons)
  have u: "\<And>wc pol. unpack 2 (critic_outputs net wc states pol) = Inl ValueError"
    by (simp add: unpack_def critic_outputs_def Let_def)
  from assms(4) have n: "nth_err (population (ne ag)) 0 = Inr (hd (population (ne ag)))"
    by (cases "population (ne ag)") (simp_all add: nth_err_def)
  show ?thesis using assms(1,2)
    by (simp add: evolution_block_def r n u bindO_def Let_def)
qed

text \<open>
  C4. The claim: \<open>train\<close> of every variant writes new priorities back with
  \<open>batch_update\<close>. \<open>train\<close> of dqn.py does (lemma \<open>train_dqn_updates_and_clips\<close> below);
  \<open>train\<close> of ne1.py binds \<open>tree_idx\<close> and never calls \<open>batch_update\<close>: whatever the
  inputs, and whether it returns or raises, the buffer it ends with is the buffer it
  started with.
\<close>

theorem pg_train_never_updates_priorities:
  "snd (outcome_state (train_pg net fresh orc ag m)) = m"
  by (rule train_pg_memory)

text \<open>
  On a buffer of 128 transitions \<open>train\<close> of the actor-critic agent returns, with the
  buffer, the counter and the target network as they were.
\<close>

lemma find_leaf_bound: "ps \<noteq> [] \<Longrightarrow> find_leaf ps v < length ps"
  by (induction ps v rule: find_leaf.induct) auto

lemma sample_full_memory:
  "\<exists>tree_idx. sample_memory 128 u ex_memory = Inr (tree_idx, replicate 128 ex_transition)"
proof -
  let ?ps = "map fst (leaves ex_memory)"
  let ?idx = "map (\<lambda>j. find_leaf ?ps (sum_list ?ps / real (128::nat) * (real j + u j))) [0 ..< 128]"
  have ne: "?ps \<noteq> []" by (simp add: ex_memory_def)
  have len: "length ?ps = 128" by (simp add: ex_memory_def)
  have "\<forall>k\<in>set ?idx. k < 128" using find_leaf_bound[OF ne] len by auto
  then have "map (\<lambda>k. snd (leaves ex_memory ! k)) ?idx = map (\<lambda>k. ex_transition) ?idx"
    by (intro map_cong) (auto simp: ex_memory_def)
  also have "\<dots> = replicate 128 ex_transition" by (simp add: map_replicate_const)
  finally have r: "map (\<lambda>k. snd (leaves ex_memory ! k)) ?idx = replicate 128 ex_transition" .
  have "sample_memory 128 u ex_memory = Inr (?idx, map (\<lambda>k. snd (leaves ex_memory ! k)) ?idx)"
    using ne len by (simp add: sample_memory_def Let_def)
  with r show ?thesis by auto
qed

lemma row_actions_replicate: "row_actions (replicate k (RowAct r)) = Inr (replicate k r)"
  by (induction k) (simp_all add: bindE_def)

lemma rewards_column_replicate: "rewards_column (replicate k (Elem v)) = Inr (replicate k v)"
  by (simp add: rewards_column_def list_all_iff)

lemma pg_train_returns_on_full_buffer:
  "\<exists>ag'. train_pg ex_pg_net [] ex_draws (st_agent ex_pg_state) ex_memory = Return () (ag', ex_memory)
        \<and> epoch ag' = 0 \<and> target_model ag' = target_model (st_agent ex_pg_state)"
proof -
  from sample_full_memory obtain tree_idx where
    s: "sample_memory 128 (o_segment ex_draws) ex_memory = Inr (tree_idx, replicate 128 ex_transition)"
    by blast
  have e: "epoch (st_agent ex_pg_state) < 50" by (simp add: ex_pg_state_def pg_init_def)
  show ?thesis
    unfolding train_pg_def
    by (simp add: s ex_transition_def row_actions_replicate rewards_column_replicate bindE_def
        Let_def columns_op_def critic_outputs_def evolution_block_closed[OF e])
       (simp add: ex_pg_state_def pg_init_def)
qed


lemma clip_by_value_range: "- 10 \<le> clip_by_value g (- 10) 10 \<and> clip_by_value g (- 10) 10 \<le> 10"
  by (simp add: clip_by_value_def)

lemma td_error_nonneg: "list_all (\<lambda>d. 0 \<le> d) (td_error q_backup q)"
  by (auto simp: td_error_def list_all_iff intro!: sum_list_nonneg)

lemma train_dqn_updates_and_clips:
  assumes "train_dqn net u ag m = Return () (ag', m')"
  shows "\<exists>tree_idx replay ae grads.
           sample_memory 128 u m = Inr (tree_idx, replay)
         \<and> batch_update tree_idx ae m = Inr m'
         \<and> list_all (\<lambda>p. 0 < p) ae
         \<and> model ag' = apply_gradients net (opt_lr ag) grads (model ag)
         \<and> list_all (list_all (\<lambda>g. - 10 \<le> g \<and> g \<le> 10)) grads"
proof -
  from assms obtain tree_idx replay where
    s: "sample_memory 128 u m = Inr (tree_idx, replay)"
    by (auto simp: train_dqn_def split: sum.splits)
  let ?states = "map (\<lambda>(s, a, r, s'). s) replay"
  let ?new_states = "map (\<lambda>(s, a, r, s'). s') replay"
  from assms s obtain q_backup q where
    l: "bindE (int_actions (map (\<lambda>(s, a, r, s'). a) replay)) (\<lambda>actions.
          bindE (rewards_column (map (\<lambda>(s, a, r, s'). r) replay)) (\<lambda>rewards.
          loss (predict net) ag ?states ?new_states rewards actions)) = Inr (q_backup, q)"
    by (auto simp: train_dqn_def Let_def split: sum.splits prod.splits)
  let ?ae = "map (\<lambda>d. d + 1 / 10 ^ 10) (td_error q_backup q)"
  let ?grads = "map (map (\<lambda>grad. clip_by_value grad (- 10) 10))
                  (gradient net (model ag) ?states q_backup)"
  from assms s l have b: "batch_update tree_idx ?ae m = Inr m'"
    and w: "model ag' = apply_gradients net (opt_lr ag) ?grads (model ag)"
    by (auto simp: train_dqn_def Let_def split: sum.splits prod.splits)
  have p: "list_all (\<lambda>p. 0 < p) ?ae"
    using td_error_nonneg[of q_backup q] by (auto simp: list_all_iff intro: add_nonneg_pos)
  have c: "list_all (list_all (\<lambda>g. - 10 \<le> g \<and> g \<le> 10)) ?grads"
    using clip_by_value_range by (auto simp: list_all_iff)
  from s b w p c show ?thesis by blast
qed

section \<open>Properties of the population search\<close>

text \<open>
  The weights of line 103: when the population is not empty and no fitness is zero they
  are the softmax the specification names, one weight for each member, each positive.
\<close>

lemma sum_list_pos_nonempty:
  fixes v :: "real list"
  shows "v \<noteq> [] \<Longrightarrow> list_all (\<lambda>a. 0 < a) v \<Longrightarrow> 0 < sum_list v"
  by (induction v) (auto simp: add_pos_nonneg sum_list_nonneg list_all_iff less_imp_le)

lemma softmax_positive:
  assumes "v \<noteq> []"
  shows "\<exists>p. softmax v = Inr p \<and> length p = length v \<and> list_all (\<lambda>a. 0 < a) p"
proof -
  let ?e = "map (\<lambda>a. exp (a - Max (set v))) v"
  have pos: "list_all (\<lambda>a. 0 < a) ?e" by (simp add: list_all_iff)
  from assms have "?e \<noteq> []" by simp
  from sum_list_pos_nonempty[OF this pos] have s: "0 < sum_list ?e" .
  have "list_all (\<lambda>a. 0 < a) (map (\<lambda>e. e / sum_list ?e) ?e)"
    using s by (simp add: list_all_iff)
  with assms show ?thesis by (simp add: softmax_def Let_def)
qed

lemma abs_over_self: "f \<noteq> 0 \<Longrightarrow> \<bar>f\<bar> / f = sgn (f::real)"
  by (simp add: sgn_real_def)

lemma selection_probs_spec:
  assumes "fitnesses \<noteq> []" "\<not> list_ex (\<lambda>f. f = 0) fitnesses"
  shows "\<exists>p. selection_probs fitnesses = Inr (Some p) \<and> spec_weights fitnesses = Inr p
           \<and> length p = length fitnesses \<and> list_all (\<lambda>a. 0 < a) p"
proof -
  from assms(2) have nz: "\<forall>f\<in>set fitnesses. f \<noteq> 0" by (auto simp: list_ex_iff)
  have same: "map (\<lambda>f. \<bar>f\<bar> / sum_list (map abs fitnesses) * (\<bar>f\<bar> / f)) fitnesses
            = map (\<lambda>f. \<bar>f\<bar> / sum_list (map abs fitnesses) * sgn f) fitnesses"
  proof (rule map_cong[OF refl])
    fix f assume "f \<in> set fitnesses"
    with nz have "f \<noteq> 0" by blast
    then have "\<bar>f\<bar> / f = sgn f" by (rule abs_over_self)
    then show "\<bar>f\<bar> / sum_list (map abs fitnesses) * (\<bar>f\<bar> / f)
             = \<bar>f\<bar> / sum_list (map abs fitnesses) * sgn f" by (simp only:)
  qed
  from assms(1) have "map (\<lambda>f. \<bar>f\<bar> / sum_list (map abs fitnesses) * sgn f) fitnesses \<noteq> []"
    by simp
  from softmax_positive[OF this] obtain p where
    p: "softmax (map (\<lambda>f. \<bar>f\<bar> / sum_list (map abs fitnesses) * sgn f) fitnesses) = Inr p"
    "length p = length fitnesses" "list_all (\<lambda>a. 0 < a) p" by auto
  have c: "\<not> (list_ex (\<lambda>f. f = 0) fitnesses \<and> fitnesses \<noteq> [])" using assms(2) by blast
  have "selection_probs fitnesses
          = bindE (softmax (map (\<lambda>f. \<bar>f\<bar> / sum_list (map abs fitnesses) * (\<bar>f\<bar> / f)) fitnesses))
              (\<lambda>p. Inr (Some p))"
    unfolding selection_probs_def using c by (rule if_not_P)
  also have "\<dots> = bindE (Inr p) (\<lambda>p. Inr (Some p))" by (simp only: same p(1))
  also have "\<dots> = Inr (Some p)" by (simp add: bindE_def)
  finally have "selection_probs fitnesses = Inr (Some p)" .
  with p show ?thesis by (auto simp: spec_weights_def)
qed

lemma length_argsort: "length (argsort v) = length v"
  by (simp add: argsort_def)

lemma set_argsort: "set (argsort v) = {..<length v}"
  by (auto simp: argsort_def)

lemma mset_argsort: "mset (argsort v) = mset [0 ..< length v]"
  by (simp add: argsort_def)

lemma sorted_argsort: "sorted (map (\<lambda>k. v ! k) (argsort v))"
  by (simp add: argsort_def sorted_sort_key)

text \<open>
  Line 99: the population after the sort has the members of the population before it,
  in descending order of fitness.
\<close>

lemma sorted_population:
  fixes pop :: "individual list"
  defines "sp \<equiv> map (\<lambda>k. pop ! k) (rev (argsort (map fitness pop)))"
  shows "mset sp = mset pop" and "sorted (rev (map fitness sp))" and "length sp = length pop"
proof -
  have "mset sp = image_mset (\<lambda>k. pop ! k) (mset (argsort (map fitness pop)))"
    by (simp add: sp_def)
  also have "\<dots> = image_mset (\<lambda>k. pop ! k) (mset [0 ..< length pop])"
    by (simp add: mset_argsort)
  also have "\<dots> = mset (map (\<lambda>k. pop ! k) [0 ..< length pop])" by simp
  also have "\<dots> = mset pop" by (simp add: map_nth)
  finally show "mset sp = mset pop" .
  have "rev (map fitness sp) = map (\<lambda>k. fitness (pop ! k)) (argsort (map fitness pop))"
    by (simp add: sp_def rev_map comp_def)
  also have "\<dots> = map (\<lambda>k. map fitness pop ! k) (argsort (map fitness pop))"
    using set_argsort[of "map fitness pop"] by (intro map_cong) auto
  finally show "sorted (rev (map fitness sp))" by (simp only: sorted_argsort)
  show "length sp = length pop" by (simp add: sp_def length_argsort)
qed

text \<open>
  Lines 98 to 104 return when the population is not empty, no fitness is zero and
  \<open>n_parents\<close> does not exceed the population size, and only then.
\<close>

lemma select_parents_returns:
  assumes "population evo \<noteq> []" "\<not> list_ex (\<lambda>f. f = 0) (map fitness (population evo))"
    "n_parents evo \<le> length (population evo)"
  shows "\<exists>p. spec_weights (map fitness (population evo)) = Inr p
     \<and> length p = length (population evo) \<and> list_all (\<lambda>a. 0 < a) p
     \<and> select_parents picks evo
       = Return
          \<lparr>sel_next_population =
              take (n_winners evo)
                (map (\<lambda>k. population evo ! k) (rev (argsort (map fitness (population evo))))),
            sel_call =
              \<lparr>ch_items = map (\<lambda>k. population evo ! k) (rev (argsort (map fitness (population evo)))),
               ch_count = n_parents evo, ch_replace = False, ch_p = Some p\<rparr>,
            sel_parents =
              map (\<lambda>k. map (\<lambda>k. population evo ! k) (rev (argsort (map fitness (population evo)))) ! k)
                picks\<rparr>
          (evo\<lparr>population :=
                 map (\<lambda>k. population evo ! k) (rev (argsort (map fitness (population evo)))),
               fittest_individual :=
                 Some (hd (map (\<lambda>k. population evo ! k)
                             (rev (argsort (map fitness (population evo))))))\<rparr>)"
proof -
  let ?fs = "map fitness (population evo)"
  define sp where "sp = map (\<lambda>k. population evo ! k) (rev (argsort ?fs))"
  from assms(1) have nonempty: "?fs \<noteq> []" by simp
  from selection_probs_spec[OF nonempty assms(2)] obtain p where
    p: "selection_probs ?fs = Inr (Some p)" "spec_weights ?fs = Inr p"
       "length p = length (population evo)" "list_all (\<lambda>a. 0 < a) p" by auto
  have ls: "length sp = length (population evo)" by (simp add: sp_def length_argsort)
  with assms(1) obtain first others where so: "sp = first # others" by (cases sp) auto
  have nlt: "\<not> Suc (length others) < n_parents evo" using ls so assms(3) by simp
  have "select_parents picks evo
       = Return
          \<lparr>sel_next_population = take (n_winners evo) sp,
            sel_call = \<lparr>ch_items = sp, ch_count = n_parents evo, ch_replace = False, ch_p = Some p\<rparr>,
            sel_parents = map (\<lambda>k. sp ! k) picks\<rparr>
          (evo\<lparr>population := sp, fittest_individual := Some (hd sp)\<rparr>)"
    unfolding select_parents_def Let_def sp_def[symmetric]
    by (simp add: so p(1) np_random_choice_def nlt)
  with p(2,3,4) show ?thesis unfolding sp_def by blast
qed

lemma select_parents_unfold:
  assumes "select_parents picks evo = Return sel evo'"
  shows "\<exists>p. selection_probs (map fitness (population evo)) = Inr (Some p)
     \<and> n_parents evo \<le> length (population evo) \<and> population evo \<noteq> []
     \<and> evo' = evo\<lparr>population :=
                    map (\<lambda>k. population evo ! k) (rev (argsort (map fitness (population evo)))),
                  fittest_individual :=
                    Some (hd (map (\<lambda>k. population evo ! k)
                                (rev (argsort (map fitness (population evo))))))\<rparr>
     \<and> sel = \<lparr>sel_next_population = take (n_winners evo) (population evo'),
              sel_call = \<lparr>ch_items = population evo', ch_count = n_parents evo,
                          ch_replace = False, ch_p = Some p\<rparr>,
              sel_parents = map (\<lambda>k. population evo' ! k) picks\<rparr>"
proof -
  let ?fs = "map fitness (population evo)"
  define sp where "sp = map (\<lambda>k. population evo ! k) (rev (argsort ?fs))"
  have ls: "length sp = length (population evo)" by (simp add: sp_def length_argsort)
  from assms obtain first others where so: "sp = first # others"
    unfolding select_parents_def Let_def sp_def[symmetric]
    by (cases sp) auto
  from assms so obtain probs where pr: "selection_probs ?fs = Inr probs"
    unfolding select_parents_def Let_def sp_def[symmetric]
    by (cases "selection_probs ?fs") auto
  from assms so pr obtain p where p: "probs = Some p"
    unfolding select_parents_def Let_def sp_def[symmetric]
    by (cases probs) (auto simp: np_random_choice_def)
  from assms so pr p have nlt: "\<not> length sp < n_parents evo"
    unfolding select_parents_def Let_def sp_def[symmetric]
    by (auto simp: np_random_choice_def split: if_splits)
  from assms so pr p nlt have
    "evo' = evo\<lparr>population := sp, fittest_individual := Some (hd sp)\<rparr>
     \<and> sel = \<lparr>sel_next_population = take (n_winners evo) sp,
              sel_call = \<lparr>ch_items = sp, ch_count = n_parents evo,
                          ch_replace = False, ch_p = Some p\<rparr>,
              sel_parents = map (\<lambda>k. sp ! k) picks\<rparr>"
    unfolding select_parents_def Let_def sp_def[symmetric]
    by (auto simp: np_random_choice_def split: if_splits)
  moreover from ls so have "population evo \<noteq> []" by auto
  ultimately show ?thesis using pr p nlt ls unfolding sp_def by auto
qed

text \<open>
  The draws of the call of line 104 are the lists of \<open>n_parents\<close> pairwise distinct
  positions of the population.
\<close>

lemma distinct_bounded_length:
  assumes "distinct picks" "list_all (\<lambda>k. k < n) picks"
  shows "length picks \<le> n"
proof -
  from assms(2) have "set picks \<subseteq> {..<n}" by (auto simp: list_all_iff)
  then have "card (set picks) \<le> card {..<n}" by (intro card_mono) simp_all
  with assms(1) show ?thesis by (simp add: distinct_card)
qed

lemma possible_picks_iff:
  assumes "population evo \<noteq> []" "\<not> list_ex (\<lambda>f. f = 0) (map fitness (population evo))"
    "n_parents evo \<le> length (population evo)"
  shows "possible_picks evo picks
     = (length picks = n_parents evo \<and> distinct picks
        \<and> list_all (\<lambda>k. k < length (population evo)) picks)"
proof -
  from select_parents_returns[OF assms, of picks] obtain p sel evo' where
    p: "length p = length (population evo)" "list_all (\<lambda>a. 0 < a) p"
    and r: "select_parents picks evo = Return sel evo'"
    and c: "sel_call sel = \<lparr>ch_items = map (\<lambda>k. population evo ! k)
                                         (rev (argsort (map fitness (population evo)))),
               ch_count = n_parents evo, ch_replace = False, ch_p = Some p\<rparr>"
    by auto
  have "list_all (\<lambda>k. k < length (population evo) \<and> 0 < p ! k) picks
          = list_all (\<lambda>k. k < length (population evo)) picks"
    using p by (auto simp: list_all_iff all_set_conv_all_nth)
  then show ?thesis
    using r c by (auto simp: possible_picks_def call_outcome_def choice_outcome_def length_argsort)
qed


text \<open>
  The population of ten with the fitnesses 3, -1, 7, 2, 10, -4, 5, 8, 1, 6: the sort
  puts the members in the order 4, 7, 2, 9, 6, 0, 3, 8, 1, 5.
\<close>

lemma ex_population_fitness:
  "population ex_population \<noteq> []
   \<and> \<not> list_ex (\<lambda>f. f = 0) (map fitness (population ex_population))
   \<and> length (population ex_population) = 10 \<and> n_parents ex_population = 6
   \<and> n_winners ex_population = 4
   \<and> n_parents ex_population \<le> length (population ex_population)"
  by (simp add: ex_population_def NeuroEvolution_init_def member_def)

lemma argsort_example:
  "argsort [3, - 1, 7, 2, 10, - 4, 5, 8, 1, 6] = [5, 1, 8, 3, 0, 6, 9, 2, 7, 4]"
  by (simp add: argsort_def upt_rec)

lemma ex_population_sorted:
  "map (\<lambda>k. population ex_population ! k)
       (rev (argsort (map fitness (population ex_population))))
     = [member 4 10, member 7 8, member 2 7, member 9 6, member 6 5,
        member 0 3, member 3 2, member 8 1, member 1 (- 1), member 5 (- 4)]"
proof -
  have "map fitness (population ex_population) = [3, - 1, 7, 2, 10, - 4, 5, 8, 1, 6]"
    by (simp add: ex_population_def member_def)
  then show ?thesis
    by (simp add: argsort_example) (simp add: ex_population_def)
qed

lemma ex_select_parents:
  "\<exists>p. spec_weights (map fitness (population ex_population)) = Inr p
     \<and> length p = 10 \<and> list_all (\<lambda>a. 0 < a) p
     \<and> select_parents picks ex_population
       = Return
          \<lparr>sel_next_population = [member 4 10, member 7 8, member 2 7, member 9 6],
            sel_call =
              \<lparr>ch_items = [member 4 10, member 7 8, member 2 7, member 9 6, member 6 5,
                           member 0 3, member 3 2, member 8 1, member 1 (- 1), member 5 (- 4)],
               ch_count = 6, ch_replace = False, ch_p = Some p\<rparr>,
            sel_parents =
              map (\<lambda>k. [member 4 10, member 7 8, member 2 7, member 9 6, member 6 5,
                         member 0 3, member 3 2, member 8 1, member 1 (- 1), member 5 (- 4)] ! k)
                picks\<rparr>
          (ex_population
             \<lparr>population := [member 4 10, member 7 8, member 2 7, member 9 6, member 6 5,
                              member 0 3, member 3 2, member 8 1, member 1 (- 1), member 5 (- 4)],
              fittest_individual := Some (member 4 10)\<rparr>)"
proof -
  have h1: "population ex_population \<noteq> []"
    and h2: "\<not> list_ex (\<lambda>f. f = 0) (map fitness (population ex_population))"
    and h3: "n_parents ex_population \<le> length (population ex_population)"
    using ex_population_fitness by simp_all
  from select_parents_returns[OF h1 h2 h3, of picks] show ?thesis
    using ex_population_fitness by (simp add: ex_population_sorted)
qed



text \<open>
  The weight vector is not permuted with the population. Position 0 of the array passed
  at line 104 holds the fittest member, number 4 with fitness 10, and position 0 of the
  weights is the weight of fitness 3, that of the member that stood first before the
  sort; it is smaller than the weight at position 4, which is the weight of fitness 10.
\<close>

lemma softmax_strict_mono:
  assumes "softmax v = Inr p" "i < length v" "j < length v" "v ! i < v ! j"
  shows "p ! i < p ! j"
proof -
  let ?e = "map (\<lambda>a. exp (a - Max (set v))) v"
  from assms(2) have ne: "v \<noteq> []" by auto
  have pos: "list_all (\<lambda>a. 0 < a) ?e" by (simp add: list_all_iff)
  from ne have "?e \<noteq> []" by simp
  from sum_list_pos_nonempty[OF this pos] have s: "0 < sum_list ?e" .
  from assms(1) ne have p: "p = map (\<lambda>e. e / sum_list ?e) ?e"
    by (simp add: softmax_def Let_def)
  have "exp (v ! i - Max (set v)) < exp (v ! j - Max (set v))" using assms(4) by simp
  then have "exp (v ! i - Max (set v)) / sum_list ?e < exp (v ! j - Max (set v)) / sum_list ?e"
    using s by (simp add: divide_strict_right_mono)
  then show ?thesis using assms(2,3) by (simp add: p)
qed

lemma weights_keep_presort_order:
  "\<exists>p. map_option (\<lambda>sel. (ch_items (sel_call sel) ! 0, ch_p (sel_call sel)))
          (outcome_result (select_parents picks ex_population))
        = Some (member 4 10, Some p)
      \<and> spec_weights [3, - 1, 7, 2, 10, - 4, 5, 8, 1, 6] = Inr p
      \<and> p ! 0 < p ! 4"
proof -
  have fs: "map fitness (population ex_population) = [3, - 1, 7, 2, 10, - 4, 5, 8, 1, 6]"
    by (simp add: ex_population_def member_def)
  from ex_select_parents[of picks] obtain p where
    p: "spec_weights [3, - 1, 7, 2, 10, - 4, 5, 8, 1, 6] = Inr p"
    and r: "map_option (\<lambda>sel. (ch_items (sel_call sel) ! 0, ch_p (sel_call sel)))
          (outcome_result (select_parents picks ex_population))
        = Some (member 4 10, Some p)"
    by (auto simp: outcome_result_def fs)
  let ?v = "map (\<lambda>f. \<bar>f\<bar> / sum_list (map abs [3, - 1, 7, 2, 10, - 4, 5, 8, 1, 6 :: real]) * sgn f)
              [3, - 1, 7, 2, 10, - 4, 5, 8, 1, 6 :: real]"
  from p have sm: "softmax ?v = Inr p" by (simp only: spec_weights_def)
  have "p ! 0 < p ! 4"
    by (rule softmax_strict_mono[OF sm]) simp_all
  with p r show ?thesis by blast
qed

text \<open>
  \<open>crossover\<close> and \<open>mutate\<close> raise at the attribute they read first, and so does every
  round of the loop of \<open>evolve\<close> that has two parents.
\<close>

lemma crossover_raises: "crossover fresh parent1 parent2 = Inl AttributeError"
  by (simp add: crossover_def Actor_getattr_def bindE_def Let_def)

lemma mutate_raises: "mutate ind = Inl AttributeError"
  by (simp add: mutate_def Actor_getattr_def bindE_def)

lemma evolve_round_raises:
  "i + 1 < length parents \<Longrightarrow> evolve_round fresh parents next_population i = Inl AttributeError"
  by (simp add: evolve_round_def nth_err_def bindE_def crossover_raises)

text \<open>
  C5. The claim: after one generation with a population of 10 and winner fraction 0.4,
  four survivors are carried over and the population has size 10 again. With such a
  population \<open>n_winners\<close> is 4 and \<open>n_parents\<close> is 6, and \<open>evolve\<close> raises AttributeError
  in the first round of its loop, at \<open>parent1.shape\<close> in \<open>crossover\<close>: the population it
  leaves is the old one sorted by fitness, no child is made and \<open>self.population\<close> is
  never assigned the next generation.
\<close>

theorem evolve_raises_before_replacement:
  "n_winners ex_population = 4 \<and> n_parents ex_population = 6
   \<and> length (population ex_population) = 10
   \<and> possible_picks ex_population [9, 3, 5, 0, 2, 7]
   \<and> evolve fresh [9, 3, 5, 0, 2, 7] ex_population
       = Raise AttributeError
           (ex_population
              \<lparr>population := [member 4 10, member 7 8, member 2 7, member 9 6, member 6 5,
                               member 0 3, member 3 2, member 8 1, member 1 (- 1), member 5 (- 4)],
               fittest_individual := Some (member 4 10)\<rparr>)"
proof -
  have h1: "population ex_population \<noteq> []"
    and h2: "\<not> list_ex (\<lambda>f. f = 0) (map fitness (population ex_population))"
    and h3: "n_parents ex_population \<le> length (population ex_population)"
    using ex_population_fitness by simp_all
  have picks: "possible_picks ex_population [9, 3, 5, 0, 2, 7]"
    using possible_picks_iff[OF h1 h2 h3, of "[9, 3, 5, 0, 2, 7]"] ex_population_fitness
    by simp
  from ex_select_parents[of "[9, 3, 5, 0, 2, 7]"] obtain sel where
    r: "select_parents [9, 3, 5, 0, 2, 7] ex_population
          = Return sel
             (ex_population
              \<lparr>population := [member 4 10, member 7 8, member 2 7, member 9 6, member 6 5,
                               member 0 3, member 3 2, member 8 1, member 1 (- 1), member 5 (- 4)],
               fittest_individual := Some (member 4 10)\<rparr>)"
    and ps: "sel_parents sel
          = [member 5 (- 4), member 9 6, member 0 3, member 4 10, member 2 7, member 8 1]"
    by auto
  have rounds: "range_by_two (length (sel_parents sel)) = [0, 2, 4]"
    by (simp add: ps range_by_two_def upt_rec)
  have first: "evolve_round fresh (sel_parents sel) (sel_next_population sel) 0
                 = Inl AttributeError"
    by (rule evolve_round_raises) (simp add: ps)
  have ev: "evolve fresh [9, 3, 5, 0, 2, 7] ex_population
       = Raise AttributeError
           (ex_population
              \<lparr>population := [member 4 10, member 7 8, member 2 7, member 9 6, member 6 5,
                               member 0 3, member 3 2, member 8 1, member 1 (- 1), member 5 (- 4)],
               fittest_individual := Some (member 4 10)\<rparr>)"
    by (simp add: evolve_def r rounds first bindE_def)
  from picks ev ex_population_fitness show ?thesis by simp
qed

text \<open>
  The same for every population and every possible draw of at least two parents.
\<close>

lemma range_by_two_Cons: "0 < n \<Longrightarrow> range_by_two n = 0 # map (\<lambda>j. 2 * j) [1 ..< (n + 1) div 2]"
proof -
  assume "0 < n"
  then have "0 < (n + 1) div 2" by simp
  then have "[0 ..< (n + 1) div 2] = 0 # [1 ..< (n + 1) div 2]" by (simp add: upt_conv_Cons)
  then show ?thesis by (simp add: range_by_two_def)
qed

lemma evolve_never_replaces:
  assumes "possible_picks evo picks" "2 \<le> n_parents evo"
  shows "evolve fresh picks evo
     = Raise AttributeError
         (evo\<lparr>population := map (\<lambda>k. population evo ! k)
                                (rev (argsort (map fitness (population evo)))),
              fittest_individual :=
                Some (hd (map (\<lambda>k. population evo ! k)
                            (rev (argsort (map fitness (population evo))))))\<rparr>)"
proof -
  from assms(1) obtain sel evo' where
    r: "select_parents picks evo = Return sel evo'"
    and c: "call_outcome (sel_call sel) picks"
    by (auto simp: possible_picks_def split: outcome.splits)
  from select_parents_unfold[OF r] obtain p where
    e: "evo' = evo\<lparr>population :=
                    map (\<lambda>k. population evo ! k) (rev (argsort (map fitness (population evo)))),
                  fittest_individual :=
                    Some (hd (map (\<lambda>k. population evo ! k)
                                (rev (argsort (map fitness (population evo))))))\<rparr>"
    and s: "sel = \<lparr>sel_next_population = take (n_winners evo) (population evo'),
              sel_call = \<lparr>ch_items = population evo', ch_count = n_parents evo,
                          ch_replace = False, ch_p = Some p\<rparr>,
              sel_parents = map (\<lambda>k. population evo' ! k) picks\<rparr>"
    by blast
  from c s have len: "length picks = n_parents evo"
    by (simp add: call_outcome_def choice_outcome_def)
  have lp: "0 + 1 < length (sel_parents sel)" using len assms(2) s by simp
  then have pos: "0 < length (sel_parents sel)" by arith
  have loop: "evolve_loop fresh (sel_parents sel) (sel_next_population sel)
                (range_by_two (length (sel_parents sel))) = Inl AttributeError"
    by (simp only: range_by_two_Cons[OF pos] evolve_loop.simps evolve_round_raises[OF lp])
       (simp add: bindE_def)
  have "evolve fresh picks evo = Raise AttributeError evo'"
    by (simp add: evolve_def r loop)
  with e show ?thesis by simp
qed

end
